theory Spec2Isabelle
  imports Main
begin

section \<open>Data model\<close>

text \<open>
  The fraud prover service (\<^verbatim>\<open>FraudProverService\<close>) reads two chains and drives the
  fraud verifier contracts. Hex strings and byte buffers are modelled as \<open>string\<close>;
  indices are JavaScript numbers used as integers, modelled as \<open>int\<close> (they can become
  negative: \<^verbatim>\<open>transactionIndex - 1\<close>); values that the contracts return as
  \<^verbatim>\<open>BigNumber\<close> (unsigned) are \<open>nat\<close>.
\<close>

type_synonym address = string
type_synonym bytes = string
type_synonym OvmTransaction = bytes

record StateRootBatchHeader =
  batchIndex :: nat
  batchRoot :: bytes
  batchSize :: nat
  prevTotalElements :: nat
  extraData :: bytes

record StateRootBatchProof =
  stateRoot :: bytes
  stateRootBatchHeader :: StateRootBatchHeader
  stateRootProof :: "nat \<times> bytes list"

record TransactionBatchProof =
  transaction :: OvmTransaction
  transactionChainElement :: bytes
  transactionBatchHeader :: bytes
  transactionInclusionProof :: "nat \<times> bytes list"

record StorageStateProof =
  slot_key :: bytes
  slot_value :: bytes
  slot_proof :: "bytes list"

record AccountStateProof =
  address :: address
  nonce :: nat
  balance :: nat
  codeHash :: bytes
  storageRoot :: bytes
  accountProof :: "bytes list"
  storageProof :: "StorageStateProof list"

record StateDiffProof =
  header :: bytes
  accountStateProofs :: "AccountStateProof list"

record 't FraudProofData =
  stateDiffProof :: StateDiffProof
  transactionProof :: TransactionBatchProof
  preStateRootProof :: StateRootBatchProof
  postStateRootProof :: StateRootBatchProof
  stateTrie :: 't
  storageTries :: "address \<rightharpoonup> 't"

datatype StateTransitionPhase = PRE_EXECUTION | POST_EXECUTION | COMPLETE

text \<open>The account state that \<^verbatim>\<open>OVM_StateManager.getAccount\<close> returns.\<close>

record OvmAccount =
  acct_nonce :: nat
  acct_balance :: nat
  acct_storageRoot :: bytes
  acct_codeHash :: bytes

record TransactionRequest =
  tx_to :: "address option"
  tx_data :: bytes
  tx_gasLimit :: int

record TransactionReceipt =
  contractAddress :: address

record FraudProverOptions =
  deployGasLimit :: int
  runGasLimit :: int
  pollingInterval :: int
  fromL2TransactionIndex :: int
  l2BlockOffset :: int

definition defaultOptions :: FraudProverOptions where
  "defaultOptions =
     \<lparr> deployGasLimit = 4000000,
       runGasLimit = 9500000,
       pollingInterval = 5000,
       fromL2TransactionIndex = 0,
       l2BlockOffset = 1 \<rparr>"

section \<open>The outside world\<close>

text \<open>
  Every \<^verbatim>\<open>await\<close> on a provider, a wallet or a contract is a call to the outside
  world. The world is a value of an arbitrary type \<open>'w\<close>; a call takes the world, answers
  with a value or with a thrown error (its \<^verbatim>\<open>toString()\<close> text, which is what the
  service inspects), and returns the world after the call. The world may change at every
  call, also at a read: other provers act on the same contracts.
\<close>

type_synonym ('w, 'a) io = "'w \<Rightarrow> (string + 'a) \<times> 'w"

record 'w L1ProviderWrapper =
  getStateRootBatchHeader :: "int \<Rightarrow> ('w, StateRootBatchHeader option) io"
  getStateRoot :: "int \<Rightarrow> ('w, bytes) io"
  getStateRootBatchProof :: "int \<Rightarrow> ('w, StateRootBatchProof) io"
  getTransactionBatchProof :: "int \<Rightarrow> ('w, TransactionBatchProof) io"

record 'w L2ProviderWrapper =
  l2_getStateRoot :: "int \<Rightarrow> ('w, bytes) io"
  getStateDiffProof :: "int \<Rightarrow> ('w, StateDiffProof) io"

record 'w TransactionResponse =
  tx_hash :: bytes
  wait :: "('w, TransactionReceipt) io"

text \<open>
  \<^verbatim>\<open>initializeFraudVerification\<close> is passed every field of the pre-state root proof and
  of the transaction proof, \<^verbatim>\<open>finalizeFraudVerification\<close> every field of both state
  root proofs and the transaction hash: the model passes the records.
\<close>

record 'w FraudVerifier =
  getStateTransitioner :: "bytes \<Rightarrow> bytes \<Rightarrow> ('w, address) io"
  initializeFraudVerification ::
    "StateRootBatchProof \<Rightarrow> TransactionBatchProof \<Rightarrow> ('w, unit) io"
  finalizeFraudVerification ::
    "StateRootBatchProof \<Rightarrow> bytes \<Rightarrow> StateRootBatchProof \<Rightarrow> ('w, unit) io"

record 'w StateTransitioner =
  st_address :: address
  phase :: "('w, StateTransitionPhase) io"
  ovmStateManager :: "('w, address) io"
  proveContractState :: "address \<Rightarrow> address \<Rightarrow> bytes \<Rightarrow> ('w, unit) io"
  proveStorageSlot :: "address \<Rightarrow> bytes \<Rightarrow> bytes \<Rightarrow> ('w, unit) io"
  applyTransaction :: "OvmTransaction \<Rightarrow> int \<Rightarrow> ('w, unit) io"
  commitContractState :: "address \<Rightarrow> bytes \<Rightarrow> int \<Rightarrow> ('w, unit) io"
  commitStorageSlot :: "address \<Rightarrow> bytes \<Rightarrow> bytes \<Rightarrow> int \<Rightarrow> ('w, unit) io"
  completeTransition :: "('w, unit) io"
  queryAccountCommitted :: "('w, address list) io"
  queryContractStorageCommitted :: "('w, (address \<times> bytes) list) io"

record 'w StateManager =
  sm_address :: address
  hasAccount :: "address \<Rightarrow> ('w, bool) io"
  getTotalUncommittedAccounts :: "('w, nat) io"
  getAccount :: "address \<Rightarrow> ('w, OvmAccount) io"
  wasAccountCommitted :: "address \<Rightarrow> ('w, bool) io"
  wasAccountChanged :: "address \<Rightarrow> ('w, bool) io"
  getTotalUncommittedContractStorage :: "('w, nat) io"
  getContractStorage :: "address \<Rightarrow> bytes \<Rightarrow> ('w, bytes) io"
  wasContractStorageCommitted :: "address \<Rightarrow> bytes \<Rightarrow> ('w, bool) io"
  wasContractStorageChanged :: "address \<Rightarrow> bytes \<Rightarrow> ('w, bool) io"

text \<open>
  The helpers of \<^verbatim>\<open>../utils\<close> and of the trie and RLP libraries are parameters of the
  model. A trie is a value of an arbitrary type \<open>'t\<close>; \<^verbatim>\<open>put\<close> returns the
  updated trie. \<^verbatim>\<open>rlp.encode\<close> is used on lists of nodes and on single values.
\<close>

record 't utils =
  makeTrieFromProofs :: "bytes list list \<Rightarrow> string + 't"
  trie_put :: "'t \<Rightarrow> bytes \<Rightarrow> bytes \<Rightarrow> string + 't"
  trie_createProof :: "'t \<Rightarrow> bytes \<Rightarrow> string + bytes list"
  rlp_encode_list :: "bytes list \<Rightarrow> bytes"
  rlp_encode :: "bytes \<Rightarrow> bytes"
  keccak256 :: "bytes \<Rightarrow> bytes"
  toHexString :: "bytes \<Rightarrow> bytes"
  fromHexString :: "bytes \<Rightarrow> bytes"
  toStrippedHexString :: "bytes \<Rightarrow> bytes"
  toBytes32 :: "bytes \<Rightarrow> bytes"
  encodeAccountState :: "int \<Rightarrow> OvmAccount \<Rightarrow> bytes"
  hashOvmTransaction :: "OvmTransaction \<Rightarrow> bytes"

record ('w, 't) env =
  l1Provider :: "'w L1ProviderWrapper"
  l2Provider :: "'w L2ProviderWrapper"
  l2RpcProvider_getCode :: "address \<Rightarrow> int \<Rightarrow> ('w, bytes) io"
  l1Wallet_sendTransaction :: "TransactionRequest \<Rightarrow> ('w, 'w TransactionResponse) io"
  OVM_FraudVerifier :: "'w FraudVerifier"
  loadStateTransitioner :: "address \<Rightarrow> 'w StateTransitioner"
  loadStateManager :: "address \<Rightarrow> 'w StateManager"
  utils :: "'t utils"

text \<open>The calls the service makes, in the order it makes them, are recorded.\<close>

datatype call =
    GetStateRootBatchHeader int
  | L1GetStateRoot int
  | L2GetStateRoot int
  | GetStateRootBatchProof int
  | GetTransactionBatchProof int
  | GetStateDiffProof int
  | GetCode address int
  | SendTransaction TransactionRequest
  | Wait bytes
  | GetStateTransitioner bytes bytes
  | InitializeFraudVerification StateRootBatchProof TransactionBatchProof
  | FinalizeFraudVerification StateRootBatchProof bytes StateRootBatchProof
  | Phase address
  | OvmStateManager address
  | ProveContractState address address address bytes
  | ProveStorageSlot address address bytes bytes
  | ApplyTransaction address OvmTransaction int
  | CommitContractState address address bytes int
  | CommitStorageSlot address address bytes bytes int
  | CompleteTransition address
  | QueryAccountCommitted address
  | QueryContractStorageCommitted address
  | HasAccount address address
  | GetTotalUncommittedAccounts address
  | GetAccount address address
  | WasAccountCommitted address address
  | WasAccountChanged address address
  | GetTotalUncommittedContractStorage address
  | GetContractStorage address address bytes
  | WasContractStorageCommitted address address bytes
  | WasContractStorageChanged address address bytes

text \<open>
  The state of a run: the world, the calls made so far, and the one field of
  \<^verbatim>\<open>this.state\<close> that the service assigns after initialisation, the cursor
  \<^verbatim>\<open>nextUnverifiedStateRoot\<close>.
\<close>

record 'w service_state =
  world :: 'w
  calls :: "call list"
  nextUnverifiedStateRoot :: int

section \<open>Asynchronous code with exceptions\<close>

text \<open>
  A piece of the service is a function from the state to \<open>None\<close> when it does not
  return within the iterations allowed to its \<^verbatim>\<open>while\<close> loops, or to its result
  (\<open>Inl\<close> the thrown error, \<open>Inr\<close> the value) and the state after it.
  \<open>andThen\<close> is one \<^verbatim>\<open>await\<close> after another, \<open>try_catch\<close> a
  \<^verbatim>\<open>try\<close> block with its \<^verbatim>\<open>catch\<close>, \<open>rpc\<close> a call to the outside world
  (recorded), \<open>lift\<close> a computation of a library that may throw.

  Left out of the model: the calls of the logger, the \<^verbatim>\<open>sleep\<close> before each poll, the
  construction of contract handles by \<^verbatim>\<open>loadContract\<close> (no call is made), and the
  loss of precision of JavaScript numbers beyond 53 bits.
\<close>

type_synonym ('w, 'a) prog =
  "'w service_state \<Rightarrow> ((string + 'a) \<times> 'w service_state) option"

definition ret :: "'a \<Rightarrow> ('w, 'a) prog" where
  "ret a s = Some (Inr a, s)"

definition throw :: "string \<Rightarrow> ('w, 'a) prog" where
  "throw e s = Some (Inl e, s)"

definition andThen :: "('w, 'a) prog \<Rightarrow> ('a \<Rightarrow> ('w, 'b) prog) \<Rightarrow> ('w, 'b) prog" where
  "andThen m f s =
     (case m s of
        None \<Rightarrow> None
      | Some (Inl e, s') \<Rightarrow> Some (Inl e, s')
      | Some (Inr a, s') \<Rightarrow> f a s')"

definition try_catch :: "('w, 'a) prog \<Rightarrow> (string \<Rightarrow> ('w, 'a) prog) \<Rightarrow> ('w, 'a) prog" where
  "try_catch m h s =
     (case m s of
        None \<Rightarrow> None
      | Some (Inl e, s') \<Rightarrow> h e s'
      | Some (Inr a, s') \<Rightarrow> Some (Inr a, s'))"

definition rpc :: "call \<Rightarrow> ('w, 'a) io \<Rightarrow> ('w, 'a) prog" where
  "rpc c f s =
     (case f (world s) of
        (r, w') \<Rightarrow> Some (r, s\<lparr>world := w', calls := calls s @ [c]\<rparr>))"

definition lift :: "string + 'a \<Rightarrow> ('w, 'a) prog" where
  "lift r s = Some (r, s)"

text \<open>\<^verbatim>\<open>String.prototype.includes\<close>: \<open>str_includes s t\<close> when \<open>t\<close> occurs in \<open>s\<close>.\<close>

fun startsWith :: "string \<Rightarrow> string \<Rightarrow> bool" where
  "startsWith s [] = True"
| "startsWith [] (c # t) = False"
| "startsWith (d # s) (c # t) = (d = c \<and> startsWith s t)"

fun str_includes :: "string \<Rightarrow> string \<Rightarrow> bool" where
  "str_includes [] t = (t = [])"
| "str_includes (d # s) t = (startsWith (d # s) t \<or> str_includes s t)"

text \<open>\<^verbatim>\<open>toLowerCase\<close> on the ASCII letters of a hex string.\<close>

definition lowerChar :: "char \<Rightarrow> char" where
  "lowerChar c =
     (let n = (of_char c :: nat) in if 65 \<le> n \<and> n \<le> 90 then char_of (n + 32) else c)"

definition toLowerCase :: "string \<Rightarrow> string" where
  "toLowerCase s = map lowerChar s"

text \<open>
  \<^verbatim>\<open>BigNumber.toNumber\<close> throws when the value does not fit the 53 bits of a
  JavaScript number.
\<close>

definition toNumber :: "nat \<Rightarrow> string + int" where
  "toNumber n = (if n < 2 ^ 53 then Inr (int n) else Inl ''Error: overflow'')"

section \<open>The scanner\<close>

text \<open>
  \<^verbatim>\<open>_findNextFraudulentStateRoot\<close>: the first argument bounds the iterations of the
  \<^verbatim>\<open>while\<close> loop. The loop advances the cursor itself.
\<close>

fun findNextFraudulentStateRoot ::
  "nat \<Rightarrow> ('w, 't) env \<Rightarrow> FraudProverOptions \<Rightarrow> ('w, int option) prog" where
  "findNextFraudulentStateRoot 0 env opts s = None"
| "findNextFraudulentStateRoot (Suc n) env opts s =
     andThen
       (rpc (GetStateRootBatchHeader (nextUnverifiedStateRoot s))
          (getStateRootBatchHeader (l1Provider env) (nextUnverifiedStateRoot s)))
       (\<lambda>h. case h of
          None \<Rightarrow> ret None
        | Some _ \<Rightarrow>
            andThen
              (rpc (L1GetStateRoot (nextUnverifiedStateRoot s))
                 (getStateRoot (l1Provider env) (nextUnverifiedStateRoot s)))
              (\<lambda>l1StateRoot.
                 andThen
                   (rpc (L2GetStateRoot (nextUnverifiedStateRoot s + l2BlockOffset opts))
                      (l2_getStateRoot (l2Provider env)
                         (nextUnverifiedStateRoot s + l2BlockOffset opts)))
                   (\<lambda>l2StateRoot.
                      if l1StateRoot \<noteq> l2StateRoot then ret (Some (nextUnverifiedStateRoot s))
                      else (\<lambda>s'. findNextFraudulentStateRoot n env opts
                              (s'\<lparr>nextUnverifiedStateRoot := nextUnverifiedStateRoot s' + 1\<rparr>)))))
       s"

section \<open>The witness assembler\<close>

text \<open>\<^verbatim>\<open>_makeStateTrie\<close> and \<^verbatim>\<open>_makeAccountTries\<close>.\<close>

definition makeStateTrie :: "('w, 't) env \<Rightarrow> StateDiffProof \<Rightarrow> ('w, 't) prog" where
  "makeStateTrie env prf =
     lift (makeTrieFromProofs (utils env) (map accountProof (accountStateProofs prf)))"

fun makeAccountTries_loop ::
  "('w, 't) env \<Rightarrow> AccountStateProof list \<Rightarrow> (address \<rightharpoonup> 't) \<Rightarrow> ('w, address \<rightharpoonup> 't) prog" where
  "makeAccountTries_loop env [] accountTries = ret accountTries"
| "makeAccountTries_loop env (accountStateProof # rest) accountTries =
     andThen
       (lift (makeTrieFromProofs (utils env) (map slot_proof (storageProof accountStateProof))))
       (\<lambda>trie. makeAccountTries_loop env rest
                  (accountTries(address accountStateProof \<mapsto> trie)))"

definition makeAccountTries ::
  "('w, 't) env \<Rightarrow> StateDiffProof \<Rightarrow> ('w, address \<rightharpoonup> 't) prog" where
  "makeAccountTries env prf = makeAccountTries_loop env (accountStateProofs prf) Map.empty"

text \<open>\<^verbatim>\<open>_getFraudProofData\<close>.\<close>

definition getFraudProofData ::
  "('w, 't) env \<Rightarrow> FraudProverOptions \<Rightarrow> int \<Rightarrow> ('w, 't FraudProofData) prog" where
  "getFraudProofData env opts transactionIndex =
     andThen
       (rpc (GetStateRootBatchProof (transactionIndex - 1))
          (getStateRootBatchProof (l1Provider env) (transactionIndex - 1)))
       (\<lambda>pre.
     andThen
       (rpc (GetStateRootBatchProof transactionIndex)
          (getStateRootBatchProof (l1Provider env) transactionIndex))
       (\<lambda>post.
     andThen
       (rpc (GetTransactionBatchProof transactionIndex)
          (getTransactionBatchProof (l1Provider env) transactionIndex))
       (\<lambda>txp.
     andThen
       (rpc (GetStateDiffProof (transactionIndex + l2BlockOffset opts - 1))
          (getStateDiffProof (l2Provider env) (transactionIndex + l2BlockOffset opts - 1)))
       (\<lambda>sdp.
     andThen (makeStateTrie env sdp) (\<lambda>trie.
     andThen (makeAccountTries env sdp) (\<lambda>tries.
     ret \<lparr> stateDiffProof = sdp,
           transactionProof = txp,
           preStateRootProof = pre,
           postStateRootProof = post,
           stateTrie = trie,
           storageTries = tries \<rparr>))))))"

section \<open>Contracts of a dispute\<close>

text \<open>\<^verbatim>\<open>_getStateTransitioner\<close> and \<^verbatim>\<open>_getFraudProofContracts\<close>.\<close>

definition service_getStateTransitioner ::
  "('w, 't) env \<Rightarrow> bytes \<Rightarrow> OvmTransaction \<Rightarrow> ('w, address) prog" where
  "service_getStateTransitioner env preStateRoot tx =
     rpc (GetStateTransitioner preStateRoot (hashOvmTransaction (utils env) tx))
       (getStateTransitioner (OVM_FraudVerifier env) preStateRoot
          (hashOvmTransaction (utils env) tx))"

definition getFraudProofContracts ::
  "('w, 't) env \<Rightarrow> bytes \<Rightarrow> OvmTransaction \<Rightarrow>
     ('w, 'w StateTransitioner \<times> 'w StateManager) prog" where
  "getFraudProofContracts env preStateRoot tx =
     andThen (service_getStateTransitioner env preStateRoot tx)
       (\<lambda>stateTransitionerAddress.
          andThen
            (rpc (OvmStateManager (st_address (loadStateTransitioner env stateTransitionerAddress)))
               (ovmStateManager (loadStateTransitioner env stateTransitionerAddress)))
            (\<lambda>stateManagerAddress.
               ret (loadStateTransitioner env stateTransitionerAddress,
                    loadStateManager env stateManagerAddress)))"

definition ZERO_ADDRESS :: address where
  "ZERO_ADDRESS = ''0x0000000000000000000000000000000000000000''"

text \<open>\<^verbatim>\<open>_initializeFraudVerification\<close> and \<^verbatim>\<open>_finalizeFraudVerification\<close>.\<close>

definition service_initializeFraudVerification ::
  "('w, 't) env \<Rightarrow> StateRootBatchProof \<Rightarrow> TransactionBatchProof \<Rightarrow> ('w, unit) prog" where
  "service_initializeFraudVerification env pre txp =
     andThen (service_getStateTransitioner env (stateRoot pre) (transaction txp))
       (\<lambda>stateTransitionerAddress.
          if stateTransitionerAddress \<noteq> ZERO_ADDRESS then ret ()
          else rpc (InitializeFraudVerification pre txp)
                 (initializeFraudVerification (OVM_FraudVerifier env) pre txp))"

definition service_finalizeFraudVerification ::
  "('w, 't) env \<Rightarrow> StateRootBatchProof \<Rightarrow> StateRootBatchProof \<Rightarrow> OvmTransaction \<Rightarrow>
     ('w, unit) prog" where
  "service_finalizeFraudVerification env pre post tx =
     rpc (FinalizeFraudVerification pre (hashOvmTransaction (utils env) tx) post)
       (finalizeFraudVerification (OVM_FraudVerifier env) pre
          (hashOvmTransaction (utils env) tx) post)"

section \<open>PRE\_EXECUTION: proving accounts and storage slots\<close>

text \<open>\<^verbatim>\<open>_deployContractCode\<close>.\<close>

definition deployContractCode ::
  "('w, 't) env \<Rightarrow> FraudProverOptions \<Rightarrow> bytes \<Rightarrow> ('w, address) prog" where
  "deployContractCode env opts code =
     andThen
       (rpc (SendTransaction
               \<lparr> tx_to = None,
                 tx_data = ''0x600D380380600D6000396000f3'' @ drop 2 (toHexString (utils env) code),
                 tx_gasLimit = deployGasLimit opts \<rparr>)
          (l1Wallet_sendTransaction env
               \<lparr> tx_to = None,
                 tx_data = ''0x600D380380600D6000396000f3'' @ drop 2 (toHexString (utils env) code),
                 tx_gasLimit = deployGasLimit opts \<rparr>))
       (\<lambda>response.
          andThen (rpc (Wait (tx_hash response)) (wait response))
            (\<lambda>result. ret (contractAddress result)))"

text \<open>
  \<^verbatim>\<open>_proveAccountStates\<close>. The answer of \<^verbatim>\<open>hasAccount\<close> selects a log message
  only: the body of the \<^verbatim>\<open>if\<close> has no \<^verbatim>\<open>continue\<close>.
\<close>

fun proveAccountStates ::
  "('w, 't) env \<Rightarrow> FraudProverOptions \<Rightarrow> 'w StateTransitioner \<Rightarrow> 'w StateManager \<Rightarrow>
     AccountStateProof list \<Rightarrow> int \<Rightarrow> ('w, unit) prog" where
  "proveAccountStates env opts OVM_StateTransitioner OVM_StateManager []
     fraudulentStateRootIndex = ret ()"
| "proveAccountStates env opts OVM_StateTransitioner OVM_StateManager (accountStateProof # rest)
     fraudulentStateRootIndex =
     andThen
       (rpc (HasAccount (sm_address OVM_StateManager) (address accountStateProof))
          (hasAccount OVM_StateManager (address accountStateProof)))
       (\<lambda>alreadyProven.
     andThen
       (rpc (GetCode (address accountStateProof)
               (fraudulentStateRootIndex + l2BlockOffset opts))
          (l2RpcProvider_getCode env (address accountStateProof)
               (fraudulentStateRootIndex + l2BlockOffset opts)))
       (\<lambda>accountCode.
     andThen
       (if accountCode \<noteq> ''0x'' then deployContractCode env opts accountCode
        else ret ''0x0000c0De0000C0DE0000c0de0000C0DE0000c0De'')
       (\<lambda>ethContractAddress.
     andThen
       (try_catch
          (rpc (ProveContractState (st_address OVM_StateTransitioner)
                  (address accountStateProof) ethContractAddress
                  (rlp_encode_list (utils env) (accountProof accountStateProof)))
             (proveContractState OVM_StateTransitioner
                  (address accountStateProof) ethContractAddress
                  (rlp_encode_list (utils env) (accountProof accountStateProof))))
          (\<lambda>err. if str_includes err ''Account state has already been proven''
                  then ret () else throw err))
       (\<lambda>_. proveAccountStates env opts OVM_StateTransitioner OVM_StateManager rest
               fraudulentStateRootIndex))))"

text \<open>\<^verbatim>\<open>_proveContractStorageStates\<close>: the inner loop over the slots of one account.\<close>

fun proveStorageSlots ::
  "('w, 't) env \<Rightarrow> 'w StateTransitioner \<Rightarrow> AccountStateProof \<Rightarrow> StorageStateProof list \<Rightarrow>
     ('w, unit) prog" where
  "proveStorageSlots env OVM_StateTransitioner accountStateProof [] = ret ()"
| "proveStorageSlots env OVM_StateTransitioner accountStateProof (slot # slots) =
     andThen
       (try_catch
          (rpc (ProveStorageSlot (st_address OVM_StateTransitioner)
                  (address accountStateProof) (toBytes32 (utils env) (slot_key slot))
                  (rlp_encode_list (utils env) (slot_proof slot)))
             (proveStorageSlot OVM_StateTransitioner
                  (address accountStateProof) (toBytes32 (utils env) (slot_key slot))
                  (rlp_encode_list (utils env) (slot_proof slot))))
          (\<lambda>err. if str_includes err ''Storage slot has already been proven.''
                  then ret () else throw err))
       (\<lambda>_. proveStorageSlots env OVM_StateTransitioner accountStateProof slots)"

fun proveContractStorageStates ::
  "('w, 't) env \<Rightarrow> 'w StateTransitioner \<Rightarrow> AccountStateProof list \<Rightarrow> ('w, unit) prog" where
  "proveContractStorageStates env OVM_StateTransitioner [] = ret ()"
| "proveContractStorageStates env OVM_StateTransitioner (accountStateProof # rest) =
     andThen
       (proveStorageSlots env OVM_StateTransitioner accountStateProof
          (storageProof accountStateProof))
       (\<lambda>_. proveContractStorageStates env OVM_StateTransitioner rest)"

section \<open>POST\_EXECUTION: committing accounts\<close>

text \<open>
  \<^verbatim>\<open>_updateAccountStates\<close>, in the order of its body: the accounts of the proof data
  that an \<^verbatim>\<open>AccountCommitted\<close> event names, their values put into the state trie,
  the search for an account to commit, and the \<^verbatim>\<open>while\<close> loop itself.
\<close>

definition committedAccounts :: "address list \<Rightarrow> AccountStateProof list \<Rightarrow> AccountStateProof list" where
  "committedAccounts accountCommittedEvents proofs =
     filter (\<lambda>account. list_ex (\<lambda>event. toLowerCase event = toLowerCase (address account))
                          accountCommittedEvents)
       proofs"

fun putCommittedAccounts ::
  "('w, 't) env \<Rightarrow> 'w StateManager \<Rightarrow> AccountStateProof list \<Rightarrow> 't \<Rightarrow> ('w, 't) prog" where
  "putCommittedAccounts env OVM_StateManager [] trie = ret trie"
| "putCommittedAccounts env OVM_StateManager (account # rest) trie =
     andThen
       (rpc (GetAccount (sm_address OVM_StateManager) (address account))
          (getAccount OVM_StateManager (address account)))
       (\<lambda>updatedAccountState.
     andThen (lift (toNumber (acct_nonce updatedAccountState))) (\<lambda>nonceNumber.
     andThen
       (lift (trie_put (utils env) trie
                (fromHexString (utils env) (keccak256 (utils env) (address account)))
                (encodeAccountState (utils env) nonceNumber updatedAccountState)))
       (\<lambda>trie'. putCommittedAccounts env OVM_StateManager rest trie')))"

fun findUncommittedAccount ::
  "'w StateManager \<Rightarrow> AccountStateProof list \<Rightarrow> ('w, AccountStateProof option) prog" where
  "findUncommittedAccount OVM_StateManager [] = ret None"
| "findUncommittedAccount OVM_StateManager (account # rest) =
     andThen
       (rpc (WasAccountCommitted (sm_address OVM_StateManager) (address account))
          (wasAccountCommitted OVM_StateManager (address account)))
       (\<lambda>committed.
          if \<not> committed then
            andThen
              (rpc (WasAccountChanged (sm_address OVM_StateManager) (address account))
                 (wasAccountChanged OVM_StateManager (address account)))
              (\<lambda>changed.
                 if changed then ret (Some account)
                 else findUncommittedAccount OVM_StateManager rest)
          else findUncommittedAccount OVM_StateManager rest)"

fun updateAccountStates ::
  "nat \<Rightarrow> ('w, 't) env \<Rightarrow> FraudProverOptions \<Rightarrow> 'w StateTransitioner \<Rightarrow> 'w StateManager \<Rightarrow>
     AccountStateProof list \<Rightarrow> 't \<Rightarrow> ('w, unit) prog" where
  "updateAccountStates 0 env opts OVM_StateTransitioner OVM_StateManager proofs trie =
     (\<lambda>s. None)"
| "updateAccountStates (Suc n) env opts OVM_StateTransitioner OVM_StateManager
     proofs trie =
     andThen
       (rpc (GetTotalUncommittedAccounts (sm_address OVM_StateManager))
          (getTotalUncommittedAccounts OVM_StateManager))
       (\<lambda>uncommitted.
     if \<not> uncommitted > 0 then ret ()
     else
     andThen
       (rpc (QueryAccountCommitted (st_address OVM_StateTransitioner))
          (queryAccountCommitted OVM_StateTransitioner))
       (\<lambda>accountCommittedEvents.
     andThen
       (putCommittedAccounts env OVM_StateManager
          (committedAccounts accountCommittedEvents proofs) trie)
       (\<lambda>trie'.
     andThen (findUncommittedAccount OVM_StateManager proofs)
       (\<lambda>nextUncommittedAccount.
     case nextUncommittedAccount of
       None \<Rightarrow>
         andThen
           (rpc (GetTotalUncommittedAccounts (sm_address OVM_StateManager))
              (getTotalUncommittedAccounts OVM_StateManager))
           (\<lambda>uncommitted'.
              if uncommitted' > 0 then
                throw ''Error: We still have accounts to commit, but we don't have any more proof data. Something went very wrong.''
              else ret ())
     | Some account \<Rightarrow>
         andThen
           (lift (trie_createProof (utils env) trie'
                    (fromHexString (utils env) (keccak256 (utils env) (address account)))))
           (\<lambda>nodes.
         andThen
           (rpc (GetAccount (sm_address OVM_StateManager) (address account))
              (getAccount OVM_StateManager (address account)))
           (\<lambda>updatedAccountState.
         andThen
           (try_catch
              (rpc (CommitContractState (st_address OVM_StateTransitioner) (address account)
                      (toHexString (utils env) (rlp_encode_list (utils env) nodes))
                      (deployGasLimit opts))
                 (commitContractState OVM_StateTransitioner (address account)
                      (toHexString (utils env) (rlp_encode_list (utils env) nodes))
                      (deployGasLimit opts)))
              (\<lambda>err.
                 if str_includes err ''invalid opcode'' \<or>
                    str_includes err ''Invalid root hash'' \<or>
                    str_includes err ''Account state wasn't changed or has already been committed.''
                 then ret () else throw err))
           (\<lambda>_. updateAccountStates n env opts OVM_StateTransitioner OVM_StateManager
                   proofs trie')))))))"

section \<open>POST\_EXECUTION: committing storage slots\<close>

text \<open>
  \<^verbatim>\<open>_updateContractStorageStates\<close>. Reading \<^verbatim>\<open>storageTries[address]\<close> at an address
  without a trie gives \<^verbatim>\<open>undefined\<close>, and using it throws a \<^verbatim>\<open>TypeError\<close>.
\<close>

definition committedStorageSlots ::
  "(address \<times> bytes) list \<Rightarrow> AccountStateProof \<Rightarrow> StorageStateProof list" where
  "committedStorageSlots storageCommittedEvents accountStateProof =
     filter (\<lambda>slotProof.
               list_ex (\<lambda>event. toLowerCase (fst event) = toLowerCase (address accountStateProof) \<and>
                                 toLowerCase (snd event) = toLowerCase (slot_key slotProof))
                 storageCommittedEvents)
       (storageProof accountStateProof)"

fun putCommittedSlots ::
  "('w, 't) env \<Rightarrow> 'w StateManager \<Rightarrow> AccountStateProof \<Rightarrow> StorageStateProof list \<Rightarrow>
     (address \<rightharpoonup> 't) \<Rightarrow> ('w, address \<rightharpoonup> 't) prog" where
  "putCommittedSlots env OVM_StateManager accountStateProof [] tries = ret tries"
| "putCommittedSlots env OVM_StateManager accountStateProof (slotProof # rest) tries =
     andThen
       (rpc (GetContractStorage (sm_address OVM_StateManager) (address accountStateProof)
               (slot_key slotProof))
          (getContractStorage OVM_StateManager (address accountStateProof)
               (slot_key slotProof)))
       (\<lambda>updatedSlotValue.
          case tries (address accountStateProof) of
            None \<Rightarrow> throw ''TypeError: Cannot read property 'put' of undefined''
          | Some trie \<Rightarrow>
              andThen
                (lift (trie_put (utils env) trie
                         (fromHexString (utils env)
                            (keccak256 (utils env) (slot_key slotProof)))
                         (fromHexString (utils env)
                            (rlp_encode (utils env)
                               (toStrippedHexString (utils env) updatedSlotValue)))))
                (\<lambda>trie'. putCommittedSlots env OVM_StateManager accountStateProof rest
                            (tries(address accountStateProof \<mapsto> trie'))))"

fun putCommittedStorage ::
  "('w, 't) env \<Rightarrow> 'w StateManager \<Rightarrow> (address \<times> bytes) list \<Rightarrow> AccountStateProof list \<Rightarrow>
     (address \<rightharpoonup> 't) \<Rightarrow> ('w, address \<rightharpoonup> 't) prog" where
  "putCommittedStorage env OVM_StateManager storageCommittedEvents [] tries = ret tries"
| "putCommittedStorage env OVM_StateManager storageCommittedEvents (accountStateProof # rest)
     tries =
     andThen
       (putCommittedSlots env OVM_StateManager accountStateProof
          (committedStorageSlots storageCommittedEvents accountStateProof) tries)
       (\<lambda>tries'. putCommittedStorage env OVM_StateManager storageCommittedEvents rest tries')"

fun findUncommittedSlot ::
  "'w StateManager \<Rightarrow> AccountStateProof \<Rightarrow> StorageStateProof list \<Rightarrow>
     ('w, StorageStateProof option) prog" where
  "findUncommittedSlot OVM_StateManager accountStateProof [] = ret None"
| "findUncommittedSlot OVM_StateManager accountStateProof (slotProof # rest) =
     andThen
       (rpc (WasContractStorageCommitted (sm_address OVM_StateManager)
               (address accountStateProof) (slot_key slotProof))
          (wasContractStorageCommitted OVM_StateManager
               (address accountStateProof) (slot_key slotProof)))
       (\<lambda>committed.
          if \<not> committed then
            andThen
              (rpc (WasContractStorageChanged (sm_address OVM_StateManager)
                      (address accountStateProof) (slot_key slotProof))
                 (wasContractStorageChanged OVM_StateManager
                      (address accountStateProof) (slot_key slotProof)))
              (\<lambda>changed.
                 if changed then ret (Some slotProof)
                 else findUncommittedSlot OVM_StateManager accountStateProof rest)
          else findUncommittedSlot OVM_StateManager accountStateProof rest)"

text \<open>
  The second \<^verbatim>\<open>for\<close> loop of the body: one commit attempt for each account that has
  a changed, uncommitted slot; an account without one is passed over
  (\<^verbatim>\<open>continue\<close>).
\<close>

fun commitStorageSlots ::
  "('w, 't) env \<Rightarrow> FraudProverOptions \<Rightarrow> 'w StateTransitioner \<Rightarrow> 'w StateManager \<Rightarrow>
     AccountStateProof list \<Rightarrow> (address \<rightharpoonup> 't) \<Rightarrow> ('w, unit) prog" where
  "commitStorageSlots env opts OVM_StateTransitioner OVM_StateManager [] tries = ret ()"
| "commitStorageSlots env opts OVM_StateTransitioner OVM_StateManager (accountStateProof # rest)
     tries =
     andThen
       (findUncommittedSlot OVM_StateManager accountStateProof (storageProof accountStateProof))
       (\<lambda>nextUncommittedStorageProof.
     case nextUncommittedStorageProof of
       None \<Rightarrow> commitStorageSlots env opts OVM_StateTransitioner OVM_StateManager rest tries
     | Some slot \<Rightarrow>
         (case tries (address accountStateProof) of
            None \<Rightarrow> throw ''TypeError: Cannot read property 'findPath' of undefined''
          | Some trie \<Rightarrow>
         andThen
           (lift (trie_createProof (utils env) trie
                    (fromHexString (utils env) (keccak256 (utils env) (slot_key slot)))))
           (\<lambda>nodes.
         andThen
           (rpc (GetContractStorage (sm_address OVM_StateManager) (address accountStateProof)
                   (slot_key slot))
              (getContractStorage OVM_StateManager (address accountStateProof) (slot_key slot)))
           (\<lambda>updatedSlotValue.
         andThen
           (try_catch
              (rpc (CommitStorageSlot (st_address OVM_StateTransitioner)
                      (address accountStateProof) (slot_key slot)
                      (toHexString (utils env) (rlp_encode_list (utils env) nodes))
                      (deployGasLimit opts))
                 (commitStorageSlot OVM_StateTransitioner
                      (address accountStateProof) (slot_key slot)
                      (toHexString (utils env) (rlp_encode_list (utils env) nodes))
                      (deployGasLimit opts)))
              (\<lambda>err.
                 if str_includes err ''invalid opcode'' \<or>
                    str_includes err ''Invalid root hash'' \<or>
                    str_includes err ''Storage slot value wasn't changed or has already been committed.''
                 then ret () else throw err))
           (\<lambda>_. commitStorageSlots env opts OVM_StateTransitioner OVM_StateManager rest
                   tries)))))"

fun updateContractStorageStates ::
  "nat \<Rightarrow> ('w, 't) env \<Rightarrow> FraudProverOptions \<Rightarrow> 'w StateTransitioner \<Rightarrow> 'w StateManager \<Rightarrow>
     AccountStateProof list \<Rightarrow> (address \<rightharpoonup> 't) \<Rightarrow> ('w, unit) prog" where
  "updateContractStorageStates 0 env opts OVM_StateTransitioner OVM_StateManager
     proofs tries = (\<lambda>s. None)"
| "updateContractStorageStates (Suc n) env opts OVM_StateTransitioner OVM_StateManager
     proofs tries =
     andThen
       (rpc (GetTotalUncommittedContractStorage (sm_address OVM_StateManager))
          (getTotalUncommittedContractStorage OVM_StateManager))
       (\<lambda>uncommitted.
     if \<not> uncommitted > 0 then ret ()
     else
     andThen
       (rpc (QueryContractStorageCommitted (st_address OVM_StateTransitioner))
          (queryContractStorageCommitted OVM_StateTransitioner))
       (\<lambda>storageCommittedEvents.
     andThen
       (putCommittedStorage env OVM_StateManager storageCommittedEvents proofs tries)
       (\<lambda>tries'.
     andThen
       (commitStorageSlots env opts OVM_StateTransitioner OVM_StateManager proofs
          tries')
       (\<lambda>_. updateContractStorageStates n env opts OVM_StateTransitioner OVM_StateManager
               proofs tries'))))"

section \<open>The driver loop\<close>

text \<open>
  One iteration of the \<^verbatim>\<open>while (this.running)\<close> loop of \<^verbatim>\<open>_start\<close>. The three
  phase blocks are the three \<^verbatim>\<open>if\<close> statements of the body, each with its own
  \<^verbatim>\<open>try\<close>/\<^verbatim>\<open>catch\<close>.
\<close>

definition preExecutionPhase ::
  "('w, 't) env \<Rightarrow> FraudProverOptions \<Rightarrow> 'w StateTransitioner \<Rightarrow> 'w StateManager \<Rightarrow>
     't FraudProofData \<Rightarrow> int \<Rightarrow> ('w, unit) prog" where
  "preExecutionPhase env opts OVM_StateTransitioner OVM_StateManager prf
     fraudulentStateRootIndex =
     try_catch
       (andThen
          (proveAccountStates env opts OVM_StateTransitioner OVM_StateManager
             (accountStateProofs (stateDiffProof prf)) fraudulentStateRootIndex)
          (\<lambda>_.
        andThen
          (proveContractStorageStates env OVM_StateTransitioner
             (accountStateProofs (stateDiffProof prf)))
          (\<lambda>_.
        rpc (ApplyTransaction (st_address OVM_StateTransitioner)
               (transaction (transactionProof prf)) (runGasLimit opts))
          (applyTransaction OVM_StateTransitioner
               (transaction (transactionProof prf)) (runGasLimit opts)))))
       (\<lambda>err. if str_includes err ''Function must be called during the correct phase.''
               then ret () else throw err)"

definition postExecutionPhase ::
  "nat \<Rightarrow> ('w, 't) env \<Rightarrow> FraudProverOptions \<Rightarrow> 'w StateTransitioner \<Rightarrow> 'w StateManager \<Rightarrow>
     't FraudProofData \<Rightarrow> ('w, unit) prog" where
  "postExecutionPhase n env opts OVM_StateTransitioner OVM_StateManager prf =
     try_catch
       (andThen
          (updateContractStorageStates n env opts OVM_StateTransitioner OVM_StateManager
             (accountStateProofs (stateDiffProof prf)) (storageTries prf))
          (\<lambda>_.
        andThen
          (updateAccountStates n env opts OVM_StateTransitioner OVM_StateManager
             (accountStateProofs (stateDiffProof prf)) (stateTrie prf))
          (\<lambda>_.
        rpc (CompleteTransition (st_address OVM_StateTransitioner))
          (completeTransition OVM_StateTransitioner))))
       (\<lambda>err. if str_includes err ''Function must be called during the correct phase.''
               then ret () else throw err)"

definition completePhase :: "('w, 't) env \<Rightarrow> 't FraudProofData \<Rightarrow> ('w, unit) prog" where
  "completePhase env prf =
     try_catch
       (service_finalizeFraudVerification env (preStateRootProof prf) (postStateRootProof prf)
          (transaction (transactionProof prf)))
       (\<lambda>err. if str_includes err ''Invalid batch header.'' \<or>
                  str_includes err ''Index out of bounds.''
               then ret () else throw err)"

definition set_nextUnverifiedStateRoot :: "int \<Rightarrow> ('w, unit) prog" where
  "set_nextUnverifiedStateRoot v s = Some (Inr (), s\<lparr>nextUnverifiedStateRoot := v\<rparr>)"

text \<open>
  The part of the \<^verbatim>\<open>try\<close> block that runs once the scanner has found an index: from
  \<^verbatim>\<open>_getFraudProofData\<close> to the assignment of the cursor.
\<close>

definition dispute ::
  "nat \<Rightarrow> ('w, 't) env \<Rightarrow> FraudProverOptions \<Rightarrow> int \<Rightarrow> ('w, unit) prog" where
  "dispute n env opts fraudulentStateRootIndex =
     andThen (getFraudProofData env opts fraudulentStateRootIndex) (\<lambda>prf.
     andThen
       (service_initializeFraudVerification env (preStateRootProof prf) (transactionProof prf))
       (\<lambda>_.
     andThen
       (rpc (L1GetStateRoot (fraudulentStateRootIndex - 1))
          (getStateRoot (l1Provider env) (fraudulentStateRootIndex - 1)))
       (\<lambda>preStateRoot.
     andThen (getFraudProofContracts env preStateRoot (transaction (transactionProof prf)))
       (\<lambda>contracts.
     andThen (rpc (Phase (st_address (fst contracts))) (phase (fst contracts))) (\<lambda>phase1.
     andThen
       (if phase1 = PRE_EXECUTION
        then preExecutionPhase env opts (fst contracts) (snd contracts) prf
               fraudulentStateRootIndex
        else ret ())
       (\<lambda>_.
     andThen (rpc (Phase (st_address (fst contracts))) (phase (fst contracts))) (\<lambda>phase2.
     andThen
       (if phase2 = POST_EXECUTION
        then postExecutionPhase n env opts (fst contracts) (snd contracts) prf
        else ret ())
       (\<lambda>_.
     andThen (rpc (Phase (st_address (fst contracts))) (phase (fst contracts))) (\<lambda>phase3.
     andThen (if phase3 = COMPLETE then completePhase env prf else ret ()) (\<lambda>_.
     andThen
       (lift (toNumber (prevTotalElements (stateRootBatchHeader (preStateRootProof prf)))))
       (\<lambda>v. set_nextUnverifiedStateRoot v)))))))))))"

definition start_try :: "nat \<Rightarrow> ('w, 't) env \<Rightarrow> FraudProverOptions \<Rightarrow> ('w, unit) prog" where
  "start_try n env opts =
     andThen (findNextFraudulentStateRoot n env opts) (\<lambda>fraudulentStateRootIndex.
       case fraudulentStateRootIndex of
         None \<Rightarrow> ret ()
       | Some i \<Rightarrow> dispute n env opts i)"

text \<open>The \<^verbatim>\<open>catch\<close> of the loop body logs the error; the loop goes on.\<close>

definition start_iteration :: "nat \<Rightarrow> ('w, 't) env \<Rightarrow> FraudProverOptions \<Rightarrow> ('w, unit) prog" where
  "start_iteration n env opts = try_catch (start_try n env opts) (\<lambda>err. ret ())"

section \<open>The launcher\<close>







section \<open>Classes of calls\<close>


definition isCommitContractState :: "call \<Rightarrow> bool" where
  "isCommitContractState c = (case c of CommitContractState _ _ _ _ \<Rightarrow> True | _ \<Rightarrow> False)"

definition isCommitStorageSlot :: "call \<Rightarrow> bool" where
  "isCommitStorageSlot c = (case c of CommitStorageSlot _ _ _ _ _ \<Rightarrow> True | _ \<Rightarrow> False)"

definition any_call :: "call \<Rightarrow> bool" where
  "any_call c = True"

section \<open>Fixtures\<close>

text \<open>
  Concrete worlds on which the service is run: an environment where every call fails, a toy
  trie (an association list), and chains for the scanner with the tip and the index of a
  wrong rollup state root as parameters.
\<close>

definition offline :: "('w, 'a) io" where
  "offline w = (Inl ''Error: could not detect network'', w)"

definition toy_utils :: "(bytes \<times> bytes) list utils" where
  "toy_utils =
     \<lparr> makeTrieFromProofs = (\<lambda>proofs. Inr (map (\<lambda>node. (node, node)) (concat proofs))),
       trie_put = (\<lambda>trie k v. Inr ((k, v) # trie)),
       trie_createProof = (\<lambda>trie k. Inr (map snd (filter (\<lambda>kv. fst kv = k) trie))),
       rlp_encode_list = concat,
       rlp_encode = (\<lambda>b. b),
       keccak256 = (\<lambda>b. b),
       toHexString = (\<lambda>b. b),
       fromHexString = (\<lambda>b. b),
       toStrippedHexString = (\<lambda>b. b),
       toBytes32 = (\<lambda>b. b),
       encodeAccountState = (\<lambda>n a. acct_storageRoot a),
       hashOvmTransaction = (\<lambda>tx. tx) \<rparr>"

definition offline_transitioner :: "address \<Rightarrow> 'w StateTransitioner" where
  "offline_transitioner a =
     \<lparr> st_address = a,
       phase = offline,
       ovmStateManager = offline,
       proveContractState = (\<lambda>_ _ _. offline),
       proveStorageSlot = (\<lambda>_ _ _. offline),
       applyTransaction = (\<lambda>_ _. offline),
       commitContractState = (\<lambda>_ _ _. offline),
       commitStorageSlot = (\<lambda>_ _ _ _. offline),
       completeTransition = offline,
       queryAccountCommitted = offline,
       queryContractStorageCommitted = offline \<rparr>"

definition offline_manager :: "address \<Rightarrow> 'w StateManager" where
  "offline_manager a =
     \<lparr> sm_address = a,
       hasAccount = (\<lambda>_. offline),
       getTotalUncommittedAccounts = offline,
       getAccount = (\<lambda>_. offline),
       wasAccountCommitted = (\<lambda>_. offline),
       wasAccountChanged = (\<lambda>_. offline),
       getTotalUncommittedContractStorage = offline,
       getContractStorage = (\<lambda>_ _. offline),
       wasContractStorageCommitted = (\<lambda>_ _. offline),
       wasContractStorageChanged = (\<lambda>_ _. offline) \<rparr>"

definition offline_env :: "('w, (bytes \<times> bytes) list) env" where
  "offline_env =
     \<lparr> l1Provider =
         \<lparr> getStateRootBatchHeader = (\<lambda>_. offline),
           getStateRoot = (\<lambda>_. offline),
           getStateRootBatchProof = (\<lambda>_. offline),
           getTransactionBatchProof = (\<lambda>_. offline) \<rparr>,
       l2Provider = \<lparr> l2_getStateRoot = (\<lambda>_. offline), getStateDiffProof = (\<lambda>_. offline) \<rparr>,
       l2RpcProvider_getCode = (\<lambda>_ _. offline),
       l1Wallet_sendTransaction = (\<lambda>_. offline),
       OVM_FraudVerifier =
         \<lparr> getStateTransitioner = (\<lambda>_ _. offline),
           initializeFraudVerification = (\<lambda>_ _. offline),
           finalizeFraudVerification = (\<lambda>_ _ _. offline) \<rparr>,
       loadStateTransitioner = offline_transitioner,
       loadStateManager = offline_manager,
       utils = toy_utils \<rparr>"

definition demo_header :: StateRootBatchHeader where
  "demo_header =
     \<lparr> batchIndex = 0, batchRoot = ''0xb0'', batchSize = 3, prevTotalElements = 0,
       extraData = ''0x'' \<rparr>"

definition scan_hdr :: "int \<Rightarrow> int \<Rightarrow> StateRootBatchHeader option" where
  "scan_hdr tip i = (if i < tip then Some demo_header else None)"

definition scan_l2root :: "int \<Rightarrow> int \<Rightarrow> bytes" where
  "scan_l2root bad i = (if i = bad then ''0xbb'' else ''0xaa'')"

definition scan_env :: "int \<Rightarrow> int \<Rightarrow> (unit, (bytes \<times> bytes) list) env" where
  "scan_env tip bad =
     offline_env
       \<lparr> l1Provider :=
           \<lparr> getStateRootBatchHeader = (\<lambda>i w. (Inr (scan_hdr tip i), w)),
             getStateRoot = (\<lambda>i w. (Inr ''0xaa'', w)),
             getStateRootBatchProof = (\<lambda>_. offline),
             getTransactionBatchProof = (\<lambda>_. offline) \<rparr>,
         l2Provider :=
           \<lparr> l2_getStateRoot = (\<lambda>i w. (Inr (scan_l2root bad i), w)),
             getStateDiffProof = (\<lambda>_. offline) \<rparr> \<rparr>"

definition start_state :: "'w \<Rightarrow> int \<Rightarrow> 'w service_state" where
  "start_state w c = \<lparr> world = w, calls = [], nextUnverifiedStateRoot = c \<rparr>"

text \<open>
  A dispute: one account with one storage slot, contracts that count the uncommitted slots
  and accounts down at each commit, and a chain whose rollup state root is wrong at block 2.
\<close>

record demo_world =
  dw_phase :: StateTransitionPhase
  dw_storage :: nat
  dw_accounts :: nat

definition demo_slot :: StorageStateProof where
  "demo_slot = \<lparr> slot_key = ''0x01'', slot_value = ''0x2a'', slot_proof = [''n3''] \<rparr>"

definition demo_account :: AccountStateProof where
  "demo_account =
     \<lparr> address = ''0xA1'', nonce = 0, balance = 0, codeHash = ''0xc0de'', storageRoot = ''0x50'',
       accountProof = [''n1'', ''n2''], storageProof = [demo_slot] \<rparr>"

definition demo_rootProof :: "int \<Rightarrow> StateRootBatchProof" where
  "demo_rootProof i =
     \<lparr> stateRoot = ''0xaa'', stateRootBatchHeader = demo_header, stateRootProof = (nat i, []) \<rparr>"

definition demo_txProof :: TransactionBatchProof where
  "demo_txProof =
     \<lparr> transaction = ''0x7a'', transactionChainElement = ''0xe1'',
       transactionBatchHeader = ''0xb1'', transactionInclusionProof = (0, []) \<rparr>"

definition demo_transitioner :: "address \<Rightarrow> demo_world StateTransitioner" where
  "demo_transitioner a =
     \<lparr> st_address = a,
       phase = (\<lambda>w. (Inr (dw_phase w), w)),
       ovmStateManager = (\<lambda>w. (Inr ''0x53'', w)),
       proveContractState = (\<lambda>_ _ _ w. (Inr (), w)),
       proveStorageSlot = (\<lambda>_ _ _ w. (Inr (), w)),
       applyTransaction = (\<lambda>_ _ w. (Inr (), w\<lparr>dw_phase := POST_EXECUTION\<rparr>)),
       commitContractState = (\<lambda>_ _ _ w. (Inr (), w\<lparr>dw_accounts := dw_accounts w - 1\<rparr>)),
       commitStorageSlot = (\<lambda>_ _ _ _ w. (Inr (), w\<lparr>dw_storage := dw_storage w - 1\<rparr>)),
       completeTransition = (\<lambda>w. (Inr (), w\<lparr>dw_phase := COMPLETE\<rparr>)),
       queryAccountCommitted = (\<lambda>w. (Inr [], w)),
       queryContractStorageCommitted = (\<lambda>w. (Inr [], w)) \<rparr>"

definition demo_manager :: "address \<Rightarrow> demo_world StateManager" where
  "demo_manager a =
     \<lparr> sm_address = a,
       hasAccount = (\<lambda>_ w. (Inr False, w)),
       getTotalUncommittedAccounts = (\<lambda>w. (Inr (dw_accounts w), w)),
       getAccount = (\<lambda>_ w. (Inr \<lparr> acct_nonce = 1, acct_balance = 0, acct_storageRoot = ''0x51'',
                                    acct_codeHash = ''0xc0de'' \<rparr>, w)),
       wasAccountCommitted = (\<lambda>_ w. (Inr (dw_accounts w = 0), w)),
       wasAccountChanged = (\<lambda>_ w. (Inr True, w)),
       getTotalUncommittedContractStorage = (\<lambda>w. (Inr (dw_storage w), w)),
       getContractStorage = (\<lambda>_ _ w. (Inr ''0x2b'', w)),
       wasContractStorageCommitted = (\<lambda>_ _ w. (Inr (dw_storage w = 0), w)),
       wasContractStorageChanged = (\<lambda>_ _ w. (Inr True, w)) \<rparr>"

definition demo_env :: "(demo_world, (bytes \<times> bytes) list) env" where
  "demo_env =
     \<lparr> l1Provider =
         \<lparr> getStateRootBatchHeader = (\<lambda>i w. (Inr (scan_hdr 3 i), w)),
           getStateRoot = (\<lambda>i w. (Inr ''0xaa'', w)),
           getStateRootBatchProof = (\<lambda>i w. (Inr (demo_rootProof i), w)),
           getTransactionBatchProof = (\<lambda>i w. (Inr demo_txProof, w)) \<rparr>,
       l2Provider =
         \<lparr> l2_getStateRoot = (\<lambda>i w. (Inr (scan_l2root 2 i), w)),
           getStateDiffProof =
             (\<lambda>i w. (Inr \<lparr> header = ''0x4d'', accountStateProofs = [demo_account] \<rparr>, w)) \<rparr>,
       l2RpcProvider_getCode = (\<lambda>_ _ w. (Inr ''0x6001'', w)),
       l1Wallet_sendTransaction =
         (\<lambda>_ w. (Inr \<lparr> tx_hash = ''0x77'',
                        wait = (\<lambda>w. (Inr \<lparr> contractAddress = ''0xC0'' \<rparr>, w)) \<rparr>, w)),
       OVM_FraudVerifier =
         \<lparr> getStateTransitioner = (\<lambda>_ _ w. (Inr ''0x51'', w)),
           initializeFraudVerification = (\<lambda>_ _ w. (Inr (), w)),
           finalizeFraudVerification = (\<lambda>_ _ _ w. (Inr (), w)) \<rparr>,
       loadStateTransitioner = demo_transitioner,
       loadStateManager = demo_manager,
       utils = toy_utils \<rparr>"

definition demo_world0 :: demo_world where
  "demo_world0 = \<lparr> dw_phase = PRE_EXECUTION, dw_storage = 1, dw_accounts = 1 \<rparr>"

text \<open>Variants: an account without code, and a state manager that already has the account.\<close>

definition emptyCode_env :: "(demo_world, (bytes \<times> bytes) list) env" where
  "emptyCode_env = demo_env\<lparr>l2RpcProvider_getCode := (\<lambda>_ _ w. (Inr ''0x'', w))\<rparr>"

definition proven_manager :: "address \<Rightarrow> demo_world StateManager" where
  "proven_manager a = (demo_manager a)\<lparr>hasAccount := (\<lambda>_ w. (Inr True, w))\<rparr>"

text \<open>
  The bundle of the dispute, a state manager whose counters never reach zero, a transitioner
  whose commits revert with a given message, and one whose commits revert once (as after
  the commit of a peer) before they succeed.
\<close>

definition demo_bundle :: "(bytes \<times> bytes) list FraudProofData" where
  "demo_bundle =
     \<lparr> stateDiffProof = \<lparr> header = ''0x4d'', accountStateProofs = [demo_account] \<rparr>,
       transactionProof = demo_txProof,
       preStateRootProof = demo_rootProof 0,
       postStateRootProof = demo_rootProof 1,
       stateTrie = [(''n1'', ''n1''), (''n2'', ''n2'')],
       storageTries = [''0xA1'' \<mapsto> [(''n3'', ''n3'')]] \<rparr>"

definition stuck_manager :: "address \<Rightarrow> demo_world StateManager" where
  "stuck_manager a =
     (demo_manager a)
       \<lparr> getTotalUncommittedAccounts := (\<lambda>w. (Inr 1, w)),
         getTotalUncommittedContractStorage := (\<lambda>w. (Inr 1, w)) \<rparr>"





text \<open>
  A chain whose state roots come in batches of two: the header of an index is the header of
  the batch that encloses it. The rollup state root is wrong at block 3.
\<close>

definition batch_header :: "int \<Rightarrow> StateRootBatchHeader" where
  "batch_header i =
     \<lparr> batchIndex = nat (i div 2), batchRoot = ''0xb0'', batchSize = 2,
       prevTotalElements = 2 * nat (i div 2), extraData = ''0x'' \<rparr>"

definition batched_env :: "(demo_world, (bytes \<times> bytes) list) env" where
  "batched_env =
     demo_env
       \<lparr> l1Provider :=
           \<lparr> getStateRootBatchHeader =
               (\<lambda>i w. (Inr (if 0 \<le> i \<and> i < 4 then Some (batch_header i) else None), w)),
             getStateRoot = (\<lambda>i w. (Inr ''0xaa'', w)),
             getStateRootBatchProof =
               (\<lambda>i w. (Inr \<lparr> stateRoot = ''0xaa'', stateRootBatchHeader = batch_header i,
                                 stateRootProof = (nat i, []) \<rparr>, w)),
             getTransactionBatchProof = (\<lambda>i w. (Inr demo_txProof, w)) \<rparr>,
         l2Provider :=
           \<lparr> l2_getStateRoot = (\<lambda>i w. (Inr (scan_l2root 3 i), w)),
             getStateDiffProof =
               (\<lambda>i w. (Inr \<lparr> header = ''0x4d'', accountStateProofs = [demo_account] \<rparr>, w)) \<rparr> \<rparr>"

section \<open>Returning\<close>


text \<open>
  \<open>frame P m\<close>: whenever \<open>m\<close> returns or throws, it has left the cursor as it was and has
  made only calls that satisfy \<open>P\<close>. \<open>assigns v m\<close>: when \<open>m\<close> returns, the cursor is
  \<open>v\<close>; when it throws, the cursor is as it was.
\<close>

definition frame :: "(call \<Rightarrow> bool) \<Rightarrow> ('w, 'a) prog \<Rightarrow> bool" where
  "frame P m =
     (\<forall>s r s'. m s = Some (r, s') \<longrightarrow>
        nextUnverifiedStateRoot s' = nextUnverifiedStateRoot s \<and>
        (\<exists>new. calls s' = calls s @ new \<and> list_all P new))"

definition assigns :: "int \<Rightarrow> ('w, 'a) prog \<Rightarrow> bool" where
  "assigns v m =
     (\<forall>s r s'. m s = Some (r, s') \<longrightarrow>
        (case r of Inr _ \<Rightarrow> nextUnverifiedStateRoot s' = v
                 | Inl _ \<Rightarrow> nextUnverifiedStateRoot s' = nextUnverifiedStateRoot s))"

section \<open>Running asynchronous code\<close>

lemma andThen_ret [simp]: "andThen (ret a) f s = f a s"
  by (simp add: andThen_def ret_def)

lemma andThen_throw [simp]: "andThen (throw e) f s = Some (Inl e, s)"
  by (simp add: andThen_def throw_def)

lemma andThen_lift_Inr [simp]: "andThen (lift (Inr a)) f s = f a s"
  by (simp add: andThen_def lift_def)

lemma andThen_lift_Inl [simp]: "andThen (lift (Inl e)) f s = Some (Inl e, s)"
  by (simp add: andThen_def lift_def)

lemma andThen_rpc_Inr:
  "io (world s) = (Inr a, w') \<Longrightarrow>
   andThen (rpc c io) f s = f a (s\<lparr>world := w', calls := calls s @ [c]\<rparr>)"
  by (simp add: andThen_def rpc_def)

lemma try_catch_rpc_Inr:
  "io (world s) = (Inr a, w') \<Longrightarrow>
   try_catch (rpc c io) h s = Some (Inr a, s\<lparr>world := w', calls := calls s @ [c]\<rparr>)"
  by (simp add: try_catch_def rpc_def)

lemma andThen_Some_Inr: "m s = Some (Inr a, s1) \<Longrightarrow> andThen m f s = f a s1"
  by (simp add: andThen_def)

lemma andThen_assoc: "andThen (andThen m f) g = andThen m (\<lambda>a. andThen (f a) g)"
  by (rule ext) (simp add: andThen_def split: option.splits sum.splits prod.splits)


lemma andThen_Inr_iff:
  "andThen m f s = Some (Inr b, s') \<longleftrightarrow>
   (\<exists>a s1. m s = Some (Inr a, s1) \<and> f a s1 = Some (Inr b, s'))"
  by (auto simp: andThen_def split: option.splits sum.splits prod.splits)

lemma rpc_Some_iff:
  "rpc c io s = Some (r, s1) \<longleftrightarrow>
   (\<exists>w'. io (world s) = (r, w') \<and> s1 = s\<lparr>world := w', calls := calls s @ [c]\<rparr>)"
  by (auto simp: rpc_def split: prod.splits)


lemma ret_Some_iff: "ret a s = Some (r, s1) \<longleftrightarrow> r = Inr a \<and> s1 = s"
  by (auto simp: ret_def)








section \<open>Calls made and the cursor\<close>

lemma frame_ret: "frame P (ret a)"
  by (simp add: frame_def ret_def)

lemma frame_throw: "frame P (throw e)"
  by (simp add: frame_def throw_def)

lemma frame_lift: "frame P (lift r)"
  by (simp add: frame_def lift_def)

lemma frame_rpc: "P c \<Longrightarrow> frame P (rpc c io)"
  by (auto simp: frame_def rpc_def split: prod.splits)

lemma frame_andThen:
  assumes "frame P m" and "\<And>a. frame P (f a)"
  shows "frame P (andThen m f)"
  unfolding frame_def
proof (intro allI impI)
  fix s r s'
  assume run: "andThen m f s = Some (r, s')"
  show "nextUnverifiedStateRoot s' = nextUnverifiedStateRoot s \<and>
        (\<exists>new. calls s' = calls s @ new \<and> list_all P new)"
  proof (cases "m s")
    case None
    with run show ?thesis by (simp add: andThen_def)
  next
    case (Some p)
    obtain r1 s1 where p: "p = (r1, s1)" by (cases p)
    from assms(1) Some p obtain new1 where
      m: "nextUnverifiedStateRoot s1 = nextUnverifiedStateRoot s"
         "calls s1 = calls s @ new1" "list_all P new1"
      unfolding frame_def by blast
    show ?thesis
    proof (cases r1)
      case (Inl e)
      with run Some p m show ?thesis by (auto simp: andThen_def)
    next
      case (Inr a)
      with run Some p have "f a s1 = Some (r, s')" by (simp add: andThen_def)
      with assms(2) [of a] obtain new2 where
        "nextUnverifiedStateRoot s' = nextUnverifiedStateRoot s1"
        "calls s' = calls s1 @ new2" "list_all P new2"
        unfolding frame_def by blast
      with m show ?thesis by (auto intro: exI [of _ "new1 @ new2"])
    qed
  qed
qed

lemma frame_try_catch:
  assumes "frame P m" and "\<And>e. frame P (h e)"
  shows "frame P (try_catch m h)"
  unfolding frame_def
proof (intro allI impI)
  fix s r s'
  assume run: "try_catch m h s = Some (r, s')"
  show "nextUnverifiedStateRoot s' = nextUnverifiedStateRoot s \<and>
        (\<exists>new. calls s' = calls s @ new \<and> list_all P new)"
  proof (cases "m s")
    case None
    with run show ?thesis by (simp add: try_catch_def)
  next
    case (Some p)
    obtain r1 s1 where p: "p = (r1, s1)" by (cases p)
    from assms(1) Some p obtain new1 where
      m: "nextUnverifiedStateRoot s1 = nextUnverifiedStateRoot s"
         "calls s1 = calls s @ new1" "list_all P new1"
      unfolding frame_def by blast
    show ?thesis
    proof (cases r1)
      case (Inr a)
      with run Some p m show ?thesis by (auto simp: try_catch_def)
    next
      case (Inl e)
      with run Some p have "h e s1 = Some (r, s')" by (simp add: try_catch_def)
      with assms(2) [of e] obtain new2 where
        "nextUnverifiedStateRoot s' = nextUnverifiedStateRoot s1"
        "calls s' = calls s1 @ new2" "list_all P new2"
        unfolding frame_def by blast
      with m show ?thesis by (auto intro: exI [of _ "new1 @ new2"])
    qed
  qed
qed

lemma frame_weaken:
  assumes "frame P m" and "\<And>c. P c \<Longrightarrow> Q c"
  shows "frame Q m"
  unfolding frame_def
proof (intro allI impI)
  fix s r s'
  assume "m s = Some (r, s')"
  with assms(1) obtain new where
    "nextUnverifiedStateRoot s' = nextUnverifiedStateRoot s"
    "calls s' = calls s @ new" "list_all P new"
    unfolding frame_def by blast
  moreover from \<open>list_all P new\<close> assms(2) have "list_all Q new"
    by (simp add: list_all_iff)
  ultimately show "nextUnverifiedStateRoot s' = nextUnverifiedStateRoot s \<and>
        (\<exists>new. calls s' = calls s @ new \<and> list_all Q new)"
    by blast
qed

lemma frame_None: "frame P (\<lambda>s. None)"
  by (simp add: frame_def)

lemmas frame_intros =
  frame_ret frame_throw frame_lift frame_rpc frame_andThen frame_try_catch frame_None

lemma any_callI: "any_call c"
  by (simp add: any_call_def)

lemma frame_any: "frame P m \<Longrightarrow> frame any_call m"
  by (erule frame_weaken) (rule any_callI)

lemma assigns_andThen:
  assumes "frame P m" and "\<And>a. assigns v (f a)"
  shows "assigns v (andThen m f)"
  unfolding assigns_def
proof (intro allI impI)
  fix s r s'
  assume run: "andThen m f s = Some (r, s')"
  show "case r of Inr _ \<Rightarrow> nextUnverifiedStateRoot s' = v
               | Inl _ \<Rightarrow> nextUnverifiedStateRoot s' = nextUnverifiedStateRoot s"
  proof (cases "m s")
    case None
    with run show ?thesis by (simp add: andThen_def)
  next
    case (Some p)
    obtain r1 s1 where p: "p = (r1, s1)" by (cases p)
    from assms(1) Some p have c: "nextUnverifiedStateRoot s1 = nextUnverifiedStateRoot s"
      unfolding frame_def by blast
    show ?thesis
    proof (cases r1)
      case (Inl e)
      with run Some p c show ?thesis by (auto simp: andThen_def)
    next
      case (Inr a)
      with run Some p have "f a s1 = Some (r, s')" by (simp add: andThen_def)
      with assms(2) [of a]
      have "case r of Inr _ \<Rightarrow> nextUnverifiedStateRoot s' = v
                    | Inl _ \<Rightarrow> nextUnverifiedStateRoot s' = nextUnverifiedStateRoot s1"
        unfolding assigns_def by blast
      with c show ?thesis by (simp split: sum.splits)
    qed
  qed
qed

lemma assigns_final:
  "assigns (int k) (andThen (lift (toNumber k)) (\<lambda>v. set_nextUnverifiedStateRoot v))"
  by (auto simp: assigns_def andThen_def lift_def toNumber_def set_nextUnverifiedStateRoot_def
        split: sum.splits if_splits)

section \<open>Properties of the scanner\<close>



lemma scan_result_is_cursor:
  "findNextFraudulentStateRoot n env opts s = Some (Inr (Some i), s') \<Longrightarrow>
   nextUnverifiedStateRoot s' = i"
proof (induction n arbitrary: s)
  case 0
  then show ?case by simp
next
  case (Suc n)
  from Suc.prems show ?case
    by (auto simp: andThen_def rpc_def ret_def
        split: prod.splits sum.splits option.splits if_splits dest: Suc.IH)
qed



lemma scan_env_eval:
  "findNextFraudulentStateRoot (Suc (Suc (Suc 0))) (scan_env 3 2) defaultOptions (start_state () 0) =
   Some (Inr (Some 1),
         \<lparr> world = (),
           calls = [GetStateRootBatchHeader 0, L1GetStateRoot 0, L2GetStateRoot 1,
                    GetStateRootBatchHeader 1, L1GetStateRoot 1, L2GetStateRoot 2],
           nextUnverifiedStateRoot = 1 \<rparr>)"
  by (simp add: scan_env_def offline_env_def scan_hdr_def scan_l2root_def defaultOptions_def
      start_state_def andThen_def rpc_def ret_def)






section \<open>Properties of the witness assembler\<close>







section \<open>Properties of PRE\_EXECUTION\<close>

text \<open>
  Claim C7. For an account whose \<^verbatim>\<open>hasAccount\<close> and \<^verbatim>\<open>getCode\<close> reads succeed: when the
  rollup code at block \<open>i + l2BlockOffset\<close> is \<^verbatim>\<open>'0x'\<close>, \<^verbatim>\<open>proveContractState\<close> is called
  with the address \<^verbatim>\<open>0x0000c0De0000C0DE0000c0de0000C0DE0000c0De\<close> right after the two
  reads, with no transaction sent; otherwise a transaction with \<open>to\<close> empty, the 13-byte
  prefix followed by the code as data and the gas limit \<open>deployGasLimit\<close> is sent and awaited,
  and \<^verbatim>\<open>proveContractState\<close> is called with the \<open>contractAddress\<close> of its receipt.
\<close>

theorem code_carrier:
  assumes "hasAccount sm (address a) (world s) = (Inr b, w1)"
      and "l2RpcProvider_getCode env (address a) (idx + l2BlockOffset opts) w1 = (Inr code, w2)"
  shows "(code = ''0x'' \<longrightarrow>
            (\<forall>w3. proveContractState st (address a) ''0x0000c0De0000C0DE0000c0de0000C0DE0000c0De''
                     (rlp_encode_list (utils env) (accountProof a)) w2 = (Inr (), w3) \<longrightarrow>
               proveAccountStates env opts st sm (a # rest) idx s =
               proveAccountStates env opts st sm rest idx
                 (s\<lparr>world := w3,
                    calls := calls s @
                      [HasAccount (sm_address sm) (address a),
                       GetCode (address a) (idx + l2BlockOffset opts),
                       ProveContractState (st_address st) (address a)
                         ''0x0000c0De0000C0DE0000c0de0000C0DE0000c0De''
                         (rlp_encode_list (utils env) (accountProof a))]\<rparr>))) \<and>
         (code \<noteq> ''0x'' \<longrightarrow>
            (\<forall>response w3 receipt w4 w5.
               l1Wallet_sendTransaction env
                 \<lparr> tx_to = None,
                   tx_data = ''0x600D380380600D6000396000f3'' @ drop 2 (toHexString (utils env) code),
                   tx_gasLimit = deployGasLimit opts \<rparr> w2 = (Inr response, w3) \<longrightarrow>
               wait response w3 = (Inr receipt, w4) \<longrightarrow>
               proveContractState st (address a) (contractAddress receipt)
                 (rlp_encode_list (utils env) (accountProof a)) w4 = (Inr (), w5) \<longrightarrow>
               proveAccountStates env opts st sm (a # rest) idx s =
               proveAccountStates env opts st sm rest idx
                 (s\<lparr>world := w5,
                    calls := calls s @
                      [HasAccount (sm_address sm) (address a),
                       GetCode (address a) (idx + l2BlockOffset opts),
                       SendTransaction
                         \<lparr> tx_to = None,
                           tx_data = ''0x600D380380600D6000396000f3'' @
                                     drop 2 (toHexString (utils env) code),
                           tx_gasLimit = deployGasLimit opts \<rparr>,
                       Wait (tx_hash response),
                       ProveContractState (st_address st) (address a) (contractAddress receipt)
                         (rlp_encode_list (utils env) (accountProof a))]\<rparr>))) \<and>
         length (drop 2 ''0x600D380380600D6000396000f3'') = 2 * 13"
proof (intro conjI impI allI)
  fix w3
  assume "code = ''0x''"
    and "proveContractState st (address a) ''0x0000c0De0000C0DE0000c0de0000C0DE0000c0De''
           (rlp_encode_list (utils env) (accountProof a)) w2 = (Inr (), w3)"
  then show "proveAccountStates env opts st sm (a # rest) idx s =
               proveAccountStates env opts st sm rest idx
                 (s\<lparr>world := w3,
                    calls := calls s @
                      [HasAccount (sm_address sm) (address a),
                       GetCode (address a) (idx + l2BlockOffset opts),
                       ProveContractState (st_address st) (address a)
                         ''0x0000c0De0000C0DE0000c0de0000C0DE0000c0De''
                         (rlp_encode_list (utils env) (accountProof a))]\<rparr>)"
    using assms
    by (simp add: andThen_rpc_Inr andThen_Some_Inr try_catch_rpc_Inr)
next
  fix response w3 receipt w4 w5
  assume "code \<noteq> ''0x''"
    and "l1Wallet_sendTransaction env
                 \<lparr> tx_to = None,
                   tx_data = ''0x600D380380600D6000396000f3'' @ drop 2 (toHexString (utils env) code),
                   tx_gasLimit = deployGasLimit opts \<rparr> w2 = (Inr response, w3)"
    and "wait response w3 = (Inr receipt, w4)"
    and "proveContractState st (address a) (contractAddress receipt)
                 (rlp_encode_list (utils env) (accountProof a)) w4 = (Inr (), w5)"
  then show "proveAccountStates env opts st sm (a # rest) idx s =
               proveAccountStates env opts st sm rest idx
                 (s\<lparr>world := w5,
                    calls := calls s @
                      [HasAccount (sm_address sm) (address a),
                       GetCode (address a) (idx + l2BlockOffset opts),
                       SendTransaction
                         \<lparr> tx_to = None,
                           tx_data = ''0x600D380380600D6000396000f3'' @
                                     drop 2 (toHexString (utils env) code),
                           tx_gasLimit = deployGasLimit opts \<rparr>,
                       Wait (tx_hash response),
                       ProveContractState (st_address st) (address a) (contractAddress receipt)
                         (rlp_encode_list (utils env) (accountProof a))]\<rparr>)"
    using assms
    by (simp add: deployContractCode_def andThen_assoc andThen_rpc_Inr andThen_Some_Inr
        try_catch_rpc_Inr)
next
  show "length (drop 2 ''0x600D380380600D6000396000f3'') = 2 * 13" by simp
qed

theorem code_carrier_witness:
  "proveAccountStates emptyCode_env defaultOptions (demo_transitioner ''0x51'')
     (demo_manager ''0x53'') [demo_account] 1 (start_state demo_world0 1) =
   Some (Inr (),
     \<lparr> world = demo_world0,
       calls = [HasAccount ''0x53'' ''0xA1'', GetCode ''0xA1'' 2,
                ProveContractState ''0x51'' ''0xA1''
                  ''0x0000c0De0000C0DE0000c0de0000C0DE0000c0De'' ''n1n2''],
       nextUnverifiedStateRoot = 1 \<rparr>) \<and>
   proveAccountStates demo_env defaultOptions (demo_transitioner ''0x51'')
     (demo_manager ''0x53'') [demo_account] 1 (start_state demo_world0 1) =
   Some (Inr (),
     \<lparr> world = demo_world0,
       calls = [HasAccount ''0x53'' ''0xA1'', GetCode ''0xA1'' 2,
                SendTransaction \<lparr> tx_to = None,
                                  tx_data = ''0x600D380380600D6000396000f36001'',
                                  tx_gasLimit = 4000000 \<rparr>,
                Wait ''0x77'',
                ProveContractState ''0x51'' ''0xA1'' ''0xC0'' ''n1n2''],
       nextUnverifiedStateRoot = 1 \<rparr>)"
proof -
  have h1: "hasAccount (demo_manager ''0x53'') (address demo_account)
              (world (start_state demo_world0 1)) = (Inr False, demo_world0)"
    by (simp add: demo_manager_def start_state_def)
  have h2: "l2RpcProvider_getCode emptyCode_env (address demo_account)
              (1 + l2BlockOffset defaultOptions) demo_world0 = (Inr ''0x'', demo_world0)"
    by (simp add: emptyCode_env_def)
  have h3: "l2RpcProvider_getCode demo_env (address demo_account)
              (1 + l2BlockOffset defaultOptions) demo_world0 = (Inr ''0x6001'', demo_world0)"
    by (simp add: demo_env_def)
  note A = code_carrier [OF h1 h2, where st = "demo_transitioner ''0x51''" and rest = "[]"]
  note B = code_carrier [OF h1 h3, where st = "demo_transitioner ''0x51''" and rest = "[]"]
  from A have "proveAccountStates emptyCode_env defaultOptions (demo_transitioner ''0x51'')
     (demo_manager ''0x53'') [demo_account] 1 (start_state demo_world0 1) =
   Some (Inr (),
     \<lparr> world = demo_world0,
       calls = [HasAccount ''0x53'' ''0xA1'', GetCode ''0xA1'' 2,
                ProveContractState ''0x51'' ''0xA1''
                  ''0x0000c0De0000C0DE0000c0de0000C0DE0000c0De'' ''n1n2''],
       nextUnverifiedStateRoot = 1 \<rparr>)"
    by (simp add: demo_transitioner_def demo_manager_def demo_account_def emptyCode_env_def
        demo_env_def toy_utils_def defaultOptions_def start_state_def ret_def)
  moreover
  from B have "proveAccountStates demo_env defaultOptions (demo_transitioner ''0x51'')
     (demo_manager ''0x53'') [demo_account] 1 (start_state demo_world0 1) =
   Some (Inr (),
     \<lparr> world = demo_world0,
       calls = [HasAccount ''0x53'' ''0xA1'', GetCode ''0xA1'' 2,
                SendTransaction \<lparr> tx_to = None,
                                  tx_data = ''0x600D380380600D6000396000f36001'',
                                  tx_gasLimit = 4000000 \<rparr>,
                Wait ''0x77'',
                ProveContractState ''0x51'' ''0xA1'' ''0xC0'' ''n1n2''],
       nextUnverifiedStateRoot = 1 \<rparr>)"
    by (simp add: demo_transitioner_def demo_manager_def demo_account_def
        demo_env_def toy_utils_def defaultOptions_def start_state_def ret_def)
  ultimately show ?thesis by simp
qed

text \<open>
  Claim C2 is not what the code does. The state manager answers that the account is already
  there; the driver logs that it skips the account, and then deploys the code carrier and
  submits \<^verbatim>\<open>proveContractState\<close> all the same.
\<close>

theorem proven_account_not_skipped:
  "proveAccountStates demo_env defaultOptions (demo_transitioner ''0x51'') (proven_manager ''0x53'')
     [demo_account] 1 (start_state demo_world0 1) =
   Some (Inr (),
         \<lparr> world = demo_world0,
           calls = [HasAccount ''0x53'' ''0xA1'',
                    GetCode ''0xA1'' 2,
                    SendTransaction \<lparr> tx_to = None,
                                      tx_data = ''0x600D380380600D6000396000f36001'',
                                      tx_gasLimit = 4000000 \<rparr>,
                    Wait ''0x77'',
                    ProveContractState ''0x51'' ''0xA1'' ''0xC0'' ''n1n2''],
           nextUnverifiedStateRoot = 1 \<rparr>)"
  by (simp add: demo_env_def defaultOptions_def demo_transitioner_def proven_manager_def
      demo_manager_def demo_account_def demo_slot_def start_state_def toy_utils_def
      deployContractCode_def andThen_def rpc_def ret_def try_catch_def)


section \<open>Properties of POST\_EXECUTION\<close>

lemma storage_loop_calls [simp]:
  "\<not> isCommitContractState (GetTotalUncommittedContractStorage m)"
  "\<not> isCommitContractState (QueryContractStorageCommitted t)"
  "\<not> isCommitContractState (GetContractStorage m a k)"
  "\<not> isCommitContractState (WasContractStorageCommitted m a k)"
  "\<not> isCommitContractState (WasContractStorageChanged m a k)"
  "\<not> isCommitContractState (CommitStorageSlot t a k p g)"
  by (simp_all add: isCommitContractState_def)

lemma account_loop_calls [simp]:
  "\<not> isCommitStorageSlot (GetTotalUncommittedAccounts m)"
  "\<not> isCommitStorageSlot (QueryAccountCommitted t)"
  "\<not> isCommitStorageSlot (GetAccount m a)"
  "\<not> isCommitStorageSlot (WasAccountCommitted m a)"
  "\<not> isCommitStorageSlot (WasAccountChanged m a)"
  "\<not> isCommitStorageSlot (CommitContractState t a p g)"
  "\<not> isCommitStorageSlot (CompleteTransition t)"
  by (simp_all add: isCommitStorageSlot_def)

lemma frame_putCommittedSlots':
  "frame (\<lambda>c. \<not> isCommitContractState c) (putCommittedSlots env sm a slots tries)"
  by (induction slots arbitrary: tries)
     (auto intro!: frame_intros split: option.splits)

lemma frame_putCommittedStorage:
  "frame (\<lambda>c. \<not> isCommitContractState c) (putCommittedStorage env sm events accts tries)"
  by (induction accts arbitrary: tries)
     (auto intro!: frame_intros frame_putCommittedSlots')

lemma frame_findUncommittedSlot:
  "frame (\<lambda>c. \<not> isCommitContractState c) (findUncommittedSlot sm a slots)"
  by (induction slots)
     (auto intro!: frame_intros)

lemma frame_commitStorageSlots:
  "frame (\<lambda>c. \<not> isCommitContractState c) (commitStorageSlots env opts st sm accts tries)"
  by (induction accts)
     (auto intro!: frame_intros frame_findUncommittedSlot
        split: option.splits)

lemma frame_updateContractStorageStates:
  "frame (\<lambda>c. \<not> isCommitContractState c)
     (updateContractStorageStates n env opts st sm accts tries)"
  by (induction n arbitrary: tries)
     (auto intro!: frame_intros frame_putCommittedStorage frame_commitStorageSlots
       )

lemma frame_putCommittedAccounts:
  "frame (\<lambda>c. \<not> isCommitStorageSlot c) (putCommittedAccounts env sm accts trie)"
  by (induction accts arbitrary: trie)
     (auto intro!: frame_intros)

lemma frame_findUncommittedAccount:
  "frame (\<lambda>c. \<not> isCommitStorageSlot c) (findUncommittedAccount sm accts)"
  by (induction accts)
     (auto intro!: frame_intros)

lemma frame_updateAccountStates:
  "frame (\<lambda>c. \<not> isCommitStorageSlot c) (updateAccountStates n env opts st sm accts trie)"
  by (induction n arbitrary: trie)
     (auto intro!: frame_intros frame_putCommittedAccounts frame_findUncommittedAccount
        split: option.splits)

lemma storage_loop_exit:
  "updateContractStorageStates n env opts st sm accts tries s = Some (Inr u, s') \<Longrightarrow>
   \<exists>w0. getTotalUncommittedContractStorage sm w0 = (Inr 0, world s') \<and>
        calls s' \<noteq> [] \<and>
        last (calls s') = GetTotalUncommittedContractStorage (sm_address sm)"
proof (induction n arbitrary: tries s)
  case 0
  then show ?case by simp
next
  case (Suc n)
  from Suc.prems obtain cnt s1 where
    c: "rpc (GetTotalUncommittedContractStorage (sm_address sm))
          (getTotalUncommittedContractStorage sm) s = Some (Inr cnt, s1)"
    and rest: "(if \<not> cnt > 0 then ret ()
           else andThen (rpc (QueryContractStorageCommitted (st_address st))
                  (queryContractStorageCommitted st))
                 (\<lambda>storageCommittedEvents.
                   andThen (putCommittedStorage env sm storageCommittedEvents accts tries)
                     (\<lambda>tries'. andThen (commitStorageSlots env opts st sm accts tries')
                        (\<lambda>_. updateContractStorageStates n env opts st sm accts tries'))))
              s1 = Some (Inr u, s')"
    by (auto simp: andThen_Inr_iff)
  show ?case
  proof (cases "cnt > 0")
    case False
    with c rest show ?thesis
      by (auto simp: rpc_Some_iff ret_Some_iff)
  next
    case True
    with rest obtain tries' s4 where
      "updateContractStorageStates n env opts st sm accts tries' s4 = Some (Inr u, s')"
      by (auto simp: andThen_Inr_iff)
    then show ?thesis by (rule Suc.IH)
  qed
qed

text \<open>
  Claim C10. In every run of the POST\_EXECUTION block that comes to an end, the calls made
  split into two parts: a first part without any \<^verbatim>\<open>commitContractState\<close> and a second part
  without any \<^verbatim>\<open>commitStorageSlot\<close>. When the second part is not empty, the storage loop
  had returned: the first part is exactly what it did, and its last call is a read of the
  uncommitted-storage counter that answered zero.
\<close>

theorem storage_commits_before_account_commits:
  assumes "postExecutionPhase n env opts st sm prf s = Some (r, s')"
  shows "\<exists>xs ys. calls s' = calls s @ xs @ ys \<and>
           list_all (\<lambda>c. \<not> isCommitContractState c) xs \<and>
           list_all (\<lambda>c. \<not> isCommitStorageSlot c) ys \<and>
           (ys \<noteq> [] \<longrightarrow>
              (\<exists>s1 w0. updateContractStorageStates n env opts st sm
                          (accountStateProofs (stateDiffProof prf)) (storageTries prf) s =
                        Some (Inr (), s1) \<and>
                      calls s1 = calls s @ xs \<and>
                      getTotalUncommittedContractStorage sm w0 = (Inr 0, world s1) \<and>
                      last (calls s1) = GetTotalUncommittedContractStorage (sm_address sm)))"
proof -
  let ?SL = "updateContractStorageStates n env opts st sm
               (accountStateProofs (stateDiffProof prf)) (storageTries prf)"
  let ?AL = "andThen (updateAccountStates n env opts st sm
               (accountStateProofs (stateDiffProof prf)) (stateTrie prf))
              (\<lambda>_. rpc (CompleteTransition (st_address st)) (completeTransition st))"
  let ?h = "\<lambda>err. if str_includes err ''Function must be called during the correct phase.''
                   then ret () else throw err"
  have run: "try_catch (andThen ?SL (\<lambda>_. ?AL)) ?h s = Some (r, s')"
    using assms by (simp add: postExecutionPhase_def)
  have fAL: "frame (\<lambda>c. \<not> isCommitStorageSlot c) ?AL"
    by (intro frame_andThen frame_updateAccountStates frame_rpc) simp
  have fh: "\<And>e s0 r0 s0'. ?h e s0 = Some (r0, s0') \<Longrightarrow> s0' = s0"
    by (simp add: ret_def throw_def split: if_splits)
  show ?thesis
  proof (cases "?SL s")
    case None
    with run show ?thesis by (simp add: try_catch_def andThen_def)
  next
    case (Some p)
    obtain r1 s1 where p: "p = (r1, s1)" by (cases p)
    from frame_updateContractStorageStates [of n env opts st sm] Some p
    obtain xs where xs: "calls s1 = calls s @ xs" "list_all (\<lambda>c. \<not> isCommitContractState c) xs"
      unfolding frame_def by blast
    show ?thesis
    proof (cases r1)
      case (Inl e)
      with run Some p have "?h e s1 = Some (r, s')"
        by (simp add: try_catch_def andThen_def)
      then have "s' = s1" by (rule fh)
      with xs show ?thesis by (intro exI [of _ xs] exI [of _ "[]"]) simp
    next
      case (Inr u)
      from Some p Inr have SL: "?SL s = Some (Inr (), s1)" by simp
      from storage_loop_exit [OF SL] obtain w0 where
        exit: "getTotalUncommittedContractStorage sm w0 = (Inr 0, world s1)"
              "last (calls s1) = GetTotalUncommittedContractStorage (sm_address sm)"
        by blast
      show ?thesis
      proof (cases "?AL s1")
        case None
        with run SL show ?thesis by (simp add: try_catch_def andThen_def)
      next
        case (Some q)
        obtain r2 s2 where q: "q = (r2, s2)" by (cases q)
        from fAL Some q obtain ys where
          ys: "calls s2 = calls s1 @ ys" "list_all (\<lambda>c. \<not> isCommitStorageSlot c) ys"
          unfolding frame_def by blast
        have "s' = s2"
        proof (cases r2)
          case (Inl e)
          with run SL Some q have "?h e s2 = Some (r, s')"
            by (simp add: try_catch_def andThen_def)
          then show ?thesis by (rule fh)
        next
          case (Inr v)
          with run SL Some q show ?thesis
            by (simp add: try_catch_def andThen_def)
        qed
        with xs ys SL exit show ?thesis
          by (intro exI [of _ xs] exI [of _ ys]) auto
      qed
    qed
  qed
qed

lemma demo_postExecutionPhase_eval:
  "postExecutionPhase (Suc (Suc 0)) demo_env defaultOptions (demo_transitioner ''0x51'')
     (demo_manager ''0x53'') demo_bundle (start_state demo_world0 1) =
   Some (Inr (),
     \<lparr> world = \<lparr> dw_phase = COMPLETE, dw_storage = 0, dw_accounts = 0 \<rparr>,
       calls =
         [GetTotalUncommittedContractStorage ''0x53'',
          QueryContractStorageCommitted ''0x51'',
          WasContractStorageCommitted ''0x53'' ''0xA1'' ''0x01'',
          WasContractStorageChanged ''0x53'' ''0xA1'' ''0x01'',
          GetContractStorage ''0x53'' ''0xA1'' ''0x01'',
          CommitStorageSlot ''0x51'' ''0xA1'' ''0x01'' [] 4000000,
          GetTotalUncommittedContractStorage ''0x53'',
          GetTotalUncommittedAccounts ''0x53'',
          QueryAccountCommitted ''0x51'',
          WasAccountCommitted ''0x53'' ''0xA1'',
          WasAccountChanged ''0x53'' ''0xA1'',
          GetAccount ''0x53'' ''0xA1'',
          CommitContractState ''0x51'' ''0xA1'' [] 4000000,
          GetTotalUncommittedAccounts ''0x53'',
          CompleteTransition ''0x51''],
       nextUnverifiedStateRoot = 1 \<rparr>)"
  by (simp add: postExecutionPhase_def demo_env_def defaultOptions_def demo_transitioner_def
      demo_manager_def demo_bundle_def demo_account_def demo_slot_def demo_world0_def
      start_state_def toy_utils_def committedAccounts_def committedStorageSlots_def
      andThen_def rpc_def ret_def lift_def try_catch_def)

theorem storage_commits_before_account_commits_witness:
  "\<exists>xs ys.
     [GetTotalUncommittedContractStorage ''0x53'',
      QueryContractStorageCommitted ''0x51'',
      WasContractStorageCommitted ''0x53'' ''0xA1'' ''0x01'',
      WasContractStorageChanged ''0x53'' ''0xA1'' ''0x01'',
      GetContractStorage ''0x53'' ''0xA1'' ''0x01'',
      CommitStorageSlot ''0x51'' ''0xA1'' ''0x01'' [] 4000000,
      GetTotalUncommittedContractStorage ''0x53'',
      GetTotalUncommittedAccounts ''0x53'',
      QueryAccountCommitted ''0x51'',
      WasAccountCommitted ''0x53'' ''0xA1'',
      WasAccountChanged ''0x53'' ''0xA1'',
      GetAccount ''0x53'' ''0xA1'',
      CommitContractState ''0x51'' ''0xA1'' [] 4000000,
      GetTotalUncommittedAccounts ''0x53'',
      CompleteTransition ''0x51''] = xs @ ys \<and>
     list_all (\<lambda>c. \<not> isCommitContractState c) xs \<and>
     list_all (\<lambda>c. \<not> isCommitStorageSlot c) ys"
  using storage_commits_before_account_commits [OF demo_postExecutionPhase_eval]
  by (auto simp: start_state_def)

text \<open>
  Claim C5 is not what the code does for storage slots. The state manager reports one
  uncommitted slot and one uncommitted account for ever, and the proof data has no account.
  The storage loop does not return within any number of iterations: it does not fail. The
  account loop, on the same input, throws in its first iteration.
\<close>

theorem storage_loop_never_fails:
  "updateContractStorageStates n demo_env defaultOptions (demo_transitioner ''0x51'')
     (stuck_manager ''0x53'') [] tries s = None \<and>
   updateAccountStates (Suc m) demo_env defaultOptions (demo_transitioner ''0x51'')
     (stuck_manager ''0x53'') [] trie s =
   Some (Inl ''Error: We still have accounts to commit, but we don't have any more proof data. Something went very wrong.'',
         s\<lparr>calls := calls s @
              [GetTotalUncommittedAccounts ''0x53'', QueryAccountCommitted ''0x51'',
               GetTotalUncommittedAccounts ''0x53'']\<rparr>)"
proof
  show "updateContractStorageStates n demo_env defaultOptions (demo_transitioner ''0x51'')
     (stuck_manager ''0x53'') [] tries s = None"
    by (induction n arbitrary: s)
       (simp_all add: stuck_manager_def demo_manager_def demo_transitioner_def andThen_def
          rpc_def ret_def)
  show "updateAccountStates (Suc m) demo_env defaultOptions (demo_transitioner ''0x51'')
     (stuck_manager ''0x53'') [] trie s =
   Some (Inl ''Error: We still have accounts to commit, but we don't have any more proof data. Something went very wrong.'',
         s\<lparr>calls := calls s @
              [GetTotalUncommittedAccounts ''0x53'', QueryAccountCommitted ''0x51'',
               GetTotalUncommittedAccounts ''0x53'']\<rparr>)"
    by (simp add: stuck_manager_def demo_manager_def demo_transitioner_def andThen_def
          rpc_def ret_def throw_def committedAccounts_def)
qed




section \<open>Properties of the driver loop\<close>

lemma frame_makeAccountTries_loop: "frame any_call (makeAccountTries_loop env accts acc)"
  by (induction accts arbitrary: acc) (auto intro!: frame_intros any_callI)

lemma frame_getFraudProofData: "frame any_call (getFraudProofData env opts i)"
  unfolding getFraudProofData_def makeStateTrie_def makeAccountTries_def
  by (intro frame_intros frame_makeAccountTries_loop any_callI)

lemma frame_initialize: "frame any_call (service_initializeFraudVerification env pre txp)"
  unfolding service_initializeFraudVerification_def service_getStateTransitioner_def
  by (auto intro!: frame_intros any_callI)

lemma frame_getFraudProofContracts: "frame any_call (getFraudProofContracts env root tx)"
  unfolding getFraudProofContracts_def service_getStateTransitioner_def
  by (auto intro!: frame_intros any_callI)

lemma frame_deployContractCode: "frame any_call (deployContractCode env opts code)"
  unfolding deployContractCode_def
  by (auto intro!: frame_intros any_callI)

lemma frame_proveAccountStates: "frame any_call (proveAccountStates env opts st sm accts i)"
  by (induction accts)
     (auto intro!: frame_intros any_callI frame_deployContractCode simp del: str_includes.simps)

lemma frame_proveStorageSlots: "frame any_call (proveStorageSlots env st a slots)"
  by (induction slots)
     (auto intro!: frame_intros any_callI simp del: str_includes.simps)

lemma frame_proveContractStorageStates: "frame any_call (proveContractStorageStates env st accts)"
  by (induction accts) (auto intro!: frame_intros any_callI frame_proveStorageSlots)

lemma frame_preExecutionPhase: "frame any_call (preExecutionPhase env opts st sm prf i)"
  unfolding preExecutionPhase_def
  by (auto intro!: frame_intros any_callI frame_proveAccountStates frame_proveContractStorageStates
        simp del: str_includes.simps)

lemma frame_postExecutionPhase: "frame any_call (postExecutionPhase n env opts st sm prf)"
  unfolding postExecutionPhase_def
  by (auto intro!: frame_intros any_callI frame_any [OF frame_updateContractStorageStates]
        frame_any [OF frame_updateAccountStates]
        simp del: str_includes.simps)

lemma frame_completePhase: "frame any_call (completePhase env prf)"
  unfolding completePhase_def service_finalizeFraudVerification_def
  by (auto intro!: frame_intros any_callI simp del: str_includes.simps)

lemma getFraudProofData_pre:
  "getFraudProofData env opts i s = Some (Inr b, s') \<Longrightarrow>
   \<exists>w1. getStateRootBatchProof (l1Provider env) (i - 1) (world s) =
           (Inr (preStateRootProof b), w1)"
  unfolding getFraudProofData_def
  by (auto simp: andThen_Inr_iff rpc_Some_iff ret_Some_iff)

lemma dispute_assigns:
  assumes "dispute n env opts i s = Some (r, s')"
  shows "case r of
           Inr _ \<Rightarrow> \<exists>pre w1. getStateRootBatchProof (l1Provider env) (i - 1) (world s) =
                               (Inr pre, w1) \<and>
                             nextUnverifiedStateRoot s' =
                               int (prevTotalElements (stateRootBatchHeader pre))
         | Inl _ \<Rightarrow> nextUnverifiedStateRoot s' = nextUnverifiedStateRoot s"
proof (cases "getFraudProofData env opts i s")
  case None
  with assms show ?thesis by (simp add: dispute_def andThen_def)
next
  case (Some p)
  obtain r1 s1 where p: "p = (r1, s1)" by (cases p)
  from frame_getFraudProofData [of env opts i] Some p
  have c: "nextUnverifiedStateRoot s1 = nextUnverifiedStateRoot s"
    unfolding frame_def by blast
  show ?thesis
  proof (cases r1)
    case (Inl e)
    with assms Some p c show ?thesis by (auto simp: dispute_def andThen_def)
  next
    case (Inr fpd)
    let ?v = "int (prevTotalElements (stateRootBatchHeader (preStateRootProof fpd)))"
    let ?rest = "andThen
       (service_initializeFraudVerification env (preStateRootProof fpd) (transactionProof fpd))
       (\<lambda>_.
     andThen
       (rpc (L1GetStateRoot (i - 1)) (getStateRoot (l1Provider env) (i - 1)))
       (\<lambda>preStateRoot.
     andThen (getFraudProofContracts env preStateRoot (transaction (transactionProof fpd)))
       (\<lambda>contracts.
     andThen (rpc (Phase (st_address (fst contracts))) (phase (fst contracts))) (\<lambda>phase1.
     andThen
       (if phase1 = PRE_EXECUTION
        then preExecutionPhase env opts (fst contracts) (snd contracts) fpd i
        else ret ())
       (\<lambda>_.
     andThen (rpc (Phase (st_address (fst contracts))) (phase (fst contracts))) (\<lambda>phase2.
     andThen
       (if phase2 = POST_EXECUTION
        then postExecutionPhase n env opts (fst contracts) (snd contracts) fpd
        else ret ())
       (\<lambda>_.
     andThen (rpc (Phase (st_address (fst contracts))) (phase (fst contracts))) (\<lambda>phase3.
     andThen (if phase3 = COMPLETE then completePhase env fpd else ret ()) (\<lambda>_.
     andThen
       (lift (toNumber (prevTotalElements (stateRootBatchHeader (preStateRootProof fpd)))))
       (\<lambda>v. set_nextUnverifiedStateRoot v))))))))))"
    have a: "assigns ?v ?rest"
      by (intro assigns_andThen [where P = any_call] assigns_final frame_initialize
          frame_getFraudProofContracts frame_rpc any_callI)
         (auto intro!: frame_intros any_callI frame_preExecutionPhase frame_postExecutionPhase
            frame_completePhase)
    from assms Some p Inr have rest: "?rest s1 = Some (r, s')"
      by (simp add: dispute_def andThen_def)
    from getFraudProofData_pre Some p Inr obtain w1 where
      pre: "getStateRootBatchProof (l1Provider env) (i - 1) (world s) =
              (Inr (preStateRootProof fpd), w1)"
      by blast
    from a rest
    have "case r of Inr _ \<Rightarrow> nextUnverifiedStateRoot s' = ?v
                  | Inl _ \<Rightarrow> nextUnverifiedStateRoot s' = nextUnverifiedStateRoot s1"
      unfolding assigns_def by blast
    with c pre show ?thesis by (auto split: sum.splits)
  qed
qed

text \<open>
  Claim C3, as the code has it. Let the scanner have found the index \<open>i\<close>; the cursor is
  then \<open>i\<close>. When the rest of the \<^verbatim>\<open>try\<close> block comes to its end without an error, the
  cursor is the \<open>prevTotalElements\<close> of the batch header carried by the pre-state root
  proof, the answer of \<^verbatim>\<open>getStateRootBatchProof(i - 1)\<close>. When it ends with an error, the
  cursor is still \<open>i\<close>: the next poll scans from the same index.
\<close>

theorem cursor_assigned_on_success_only:
  assumes "findNextFraudulentStateRoot n env opts s = Some (Inr (Some i), s1)"
      and "start_try n env opts s = Some (r, s')"
  shows "nextUnverifiedStateRoot s1 = i \<and>
         (case r of
            Inr _ \<Rightarrow> \<exists>pre w1. getStateRootBatchProof (l1Provider env) (i - 1) (world s1) =
                                (Inr pre, w1) \<and>
                              nextUnverifiedStateRoot s' =
                                int (prevTotalElements (stateRootBatchHeader pre))
          | Inl _ \<Rightarrow> nextUnverifiedStateRoot s' = i)"
proof -
  from assms(1) have c: "nextUnverifiedStateRoot s1 = i" by (rule scan_result_is_cursor)
  from assms have "dispute n env opts i s1 = Some (r, s')"
    by (simp add: start_try_def andThen_def)
  from dispute_assigns [OF this] c show ?thesis
    by (auto split: sum.splits)
qed

text \<open>
  Claim C3 as written also calls this value the start of the batch that contains the disputed
  root. On the chain with batches of two the scanner finds the index 2, the first of its
  batch; the dispute succeeds and leaves the cursor at 0, the start of the batch of the
  pre-state root 1, while the batch that contains the root 2 starts at 2.
\<close>

theorem cursor_rewind_batch_counterexample:
  "fst (the (findNextFraudulentStateRoot (Suc (Suc (Suc 0))) batched_env defaultOptions
               (start_state demo_world0 0))) = Inr (Some 2) \<and>
   fst (the (start_try (Suc (Suc (Suc 0))) batched_env defaultOptions
               (start_state demo_world0 0))) = Inr () \<and>
   nextUnverifiedStateRoot
     (snd (the (start_try (Suc (Suc (Suc 0))) batched_env defaultOptions
                  (start_state demo_world0 0)))) = 0 \<and>
   fst (getStateRootBatchHeader (l1Provider batched_env) 2 demo_world0) =
     Inr (Some (batch_header 2)) \<and>
   prevTotalElements (batch_header 2) = 2"
  by (simp add: start_try_def dispute_def getFraudProofData_def makeStateTrie_def
      makeAccountTries_def service_initializeFraudVerification_def
      service_getStateTransitioner_def getFraudProofContracts_def ZERO_ADDRESS_def
      preExecutionPhase_def postExecutionPhase_def completePhase_def
      service_finalizeFraudVerification_def deployContractCode_def
      set_nextUnverifiedStateRoot_def toNumber_def
      batched_env_def batch_header_def
      demo_env_def defaultOptions_def demo_transitioner_def
      demo_manager_def demo_account_def demo_slot_def demo_world0_def demo_rootProof_def
      demo_txProof_def demo_header_def scan_hdr_def scan_l2root_def
      start_state_def toy_utils_def committedAccounts_def committedStorageSlots_def
      andThen_def rpc_def ret_def lift_def try_catch_def)

lemma demo_start_try_eval:
  "start_try (Suc (Suc (Suc 0))) demo_env defaultOptions (start_state demo_world0 0) =
   Some (Inr (),
     \<lparr> world = \<lparr> dw_phase = COMPLETE, dw_storage = 0, dw_accounts = 0 \<rparr>,
       calls =
         [GetStateRootBatchHeader 0, L1GetStateRoot 0, L2GetStateRoot 1,
          GetStateRootBatchHeader 1, L1GetStateRoot 1, L2GetStateRoot 2,
          GetStateRootBatchProof 0, GetStateRootBatchProof 1, GetTransactionBatchProof 1,
          GetStateDiffProof 1,
          GetStateTransitioner ''0xaa'' ''0x7a'',
          L1GetStateRoot 0,
          GetStateTransitioner ''0xaa'' ''0x7a'',
          OvmStateManager ''0x51'',
          Phase ''0x51'',
          HasAccount ''0x53'' ''0xA1'',
          GetCode ''0xA1'' 2,
          SendTransaction \<lparr> tx_to = None,
                            tx_data = ''0x600D380380600D6000396000f36001'',
                            tx_gasLimit = 4000000 \<rparr>,
          Wait ''0x77'',
          ProveContractState ''0x51'' ''0xA1'' ''0xC0'' ''n1n2'',
          ProveStorageSlot ''0x51'' ''0xA1'' ''0x01'' ''n3'',
          ApplyTransaction ''0x51'' ''0x7a'' 9500000,
          Phase ''0x51'',
          GetTotalUncommittedContractStorage ''0x53'',
          QueryContractStorageCommitted ''0x51'',
          WasContractStorageCommitted ''0x53'' ''0xA1'' ''0x01'',
          WasContractStorageChanged ''0x53'' ''0xA1'' ''0x01'',
          GetContractStorage ''0x53'' ''0xA1'' ''0x01'',
          CommitStorageSlot ''0x51'' ''0xA1'' ''0x01'' [] 4000000,
          GetTotalUncommittedContractStorage ''0x53'',
          GetTotalUncommittedAccounts ''0x53'',
          QueryAccountCommitted ''0x51'',
          WasAccountCommitted ''0x53'' ''0xA1'',
          WasAccountChanged ''0x53'' ''0xA1'',
          GetAccount ''0x53'' ''0xA1'',
          CommitContractState ''0x51'' ''0xA1'' [] 4000000,
          GetTotalUncommittedAccounts ''0x53'',
          CompleteTransition ''0x51'',
          Phase ''0x51'',
          FinalizeFraudVerification (demo_rootProof 0) ''0x7a'' (demo_rootProof 1)],
       nextUnverifiedStateRoot = 0 \<rparr>)"
  by (simp add: start_try_def dispute_def getFraudProofData_def makeStateTrie_def
      makeAccountTries_def service_initializeFraudVerification_def
      service_getStateTransitioner_def getFraudProofContracts_def ZERO_ADDRESS_def
      preExecutionPhase_def postExecutionPhase_def completePhase_def
      service_finalizeFraudVerification_def deployContractCode_def
      set_nextUnverifiedStateRoot_def toNumber_def
      demo_env_def defaultOptions_def demo_transitioner_def
      demo_manager_def demo_account_def demo_slot_def demo_world0_def demo_rootProof_def
      demo_txProof_def demo_header_def scan_hdr_def scan_l2root_def
      start_state_def toy_utils_def committedAccounts_def committedStorageSlots_def
      andThen_def rpc_def ret_def lift_def try_catch_def)

lemma demo_scan_eval:
  "findNextFraudulentStateRoot (Suc (Suc (Suc 0))) demo_env defaultOptions
     (start_state demo_world0 0) =
   Some (Inr (Some 1),
         \<lparr> world = demo_world0,
           calls = [GetStateRootBatchHeader 0, L1GetStateRoot 0, L2GetStateRoot 1,
                    GetStateRootBatchHeader 1, L1GetStateRoot 1, L2GetStateRoot 2],
           nextUnverifiedStateRoot = 1 \<rparr>)"
  by (simp add: demo_env_def scan_hdr_def scan_l2root_def defaultOptions_def
      start_state_def andThen_def rpc_def ret_def)

lemma scan_env_start_try_eval:
  "start_try (Suc (Suc (Suc 0))) (scan_env 3 2) defaultOptions (start_state () 0) =
   Some (Inl ''Error: could not detect network'',
         \<lparr> world = (),
           calls = [GetStateRootBatchHeader 0, L1GetStateRoot 0, L2GetStateRoot 1,
                    GetStateRootBatchHeader 1, L1GetStateRoot 1, L2GetStateRoot 2,
                    GetStateRootBatchProof 0],
           nextUnverifiedStateRoot = 1 \<rparr>)"
  by (simp add: start_try_def dispute_def getFraudProofData_def
      scan_env_def offline_env_def offline_def scan_hdr_def scan_l2root_def defaultOptions_def
      start_state_def andThen_def rpc_def ret_def)

theorem cursor_assigned_on_success_only_witness:
  "nextUnverifiedStateRoot
     (snd (the (start_try (Suc (Suc (Suc 0))) demo_env defaultOptions
                  (start_state demo_world0 0)))) =
     int (prevTotalElements demo_header) \<and>
   nextUnverifiedStateRoot
     (snd (the (start_try (Suc (Suc (Suc 0))) (scan_env 3 2) defaultOptions
                  (start_state () 0)))) = 1"
proof -
  note ok = cursor_assigned_on_success_only [OF demo_scan_eval demo_start_try_eval]
  note ko = cursor_assigned_on_success_only [OF scan_env_eval scan_env_start_try_eval]
  have pre: "getStateRootBatchProof (l1Provider demo_env) 0 w = (Inr (demo_rootProof 0), w)"
    for w
    by (simp add: demo_env_def)
  from ok have "nextUnverifiedStateRoot
     \<lparr> world = \<lparr> dw_phase = COMPLETE, dw_storage = 0, dw_accounts = 0 \<rparr>,
       calls = [],
       nextUnverifiedStateRoot = 0 \<rparr> =
     int (prevTotalElements demo_header)"
    by (auto simp: pre demo_rootProof_def)
  then have "nextUnverifiedStateRoot
     (snd (the (start_try (Suc (Suc (Suc 0))) demo_env defaultOptions
                  (start_state demo_world0 0)))) =
     int (prevTotalElements demo_header)"
    by (simp add: demo_start_try_eval)
  moreover from ko have "nextUnverifiedStateRoot
     (snd (the (start_try (Suc (Suc (Suc 0))) (scan_env 3 2) defaultOptions
                  (start_state () 0)))) = 1"
    by (simp add: scan_env_start_try_eval)
  ultimately show ?thesis by simp
qed

end
